theory Spec2Isabelle
  imports Complex_Main
begin

section \<open>Numbers and vectors\<close>

text \<open>
  The simulation of \<^verbatim>\<open>tab1-fluids.js\<close> (Tab 10, the Stable Fluids solver) computes with
  JavaScript numbers on the CPU and with GLSL \<^verbatim>\<open>highp float\<close> values on the GPU. Both
  are modelled by \<^typ>\<open>real\<close>: the model is the exact arithmetic of the algorithm, without
  rounding, infinities and NaN (a NaN is modelled only where the source can produce one
  from its input, in \<^verbatim>\<open>parseInt\<close>).
\<close>

type_synonym vec2 = "real \<times> real"
type_synonym vec3 = "real \<times> real \<times> real"
type_synonym vec4 = "real \<times> real \<times> real \<times> real"

text \<open>GLSL component selection \<^verbatim>\<open>.x\<close>, \<^verbatim>\<open>.y\<close>, \<^verbatim>\<open>.xy\<close>, \<^verbatim>\<open>.rgb\<close> on a \<^verbatim>\<open>vec4\<close>.\<close>

fun sel_x :: "vec4 \<Rightarrow> real" where "sel_x (x, y, z, w) = x"
fun sel_y :: "vec4 \<Rightarrow> real" where "sel_y (x, y, z, w) = y"
fun sel_xy :: "vec4 \<Rightarrow> vec2" where "sel_xy (x, y, z, w) = (x, y)"
fun sel_rgb :: "vec4 \<Rightarrow> vec3" where "sel_rgb (x, y, z, w) = (x, y, z)"

text \<open>Component-wise sum and the product of a scalar with a \<^verbatim>\<open>vec4\<close>.\<close>

fun vec4_add :: "vec4 \<Rightarrow> vec4 \<Rightarrow> vec4" where
  "vec4_add (a, b, c, d) (a', b', c', d') = (a + a', b + b', c + c', d + d')"

fun vec4_scale :: "real \<Rightarrow> vec4 \<Rightarrow> vec4" where
  "vec4_scale k (a, b, c, d) = (k * a, k * b, k * c, k * d)"

section \<open>Colour conversion\<close>

text \<open>
  The arrow function \<^verbatim>\<open>hue2rgb\<close> of \<^verbatim>\<open>hslToRgb\<close>: \<^verbatim>\<open>t\<close> is moved by one at most
  once in each direction, then one of four branches is taken.
\<close>

definition hue2rgb :: "real \<Rightarrow> real \<Rightarrow> real \<Rightarrow> real" where
  "hue2rgb p q t0 =
     (let t1 = (if t0 < 0 then t0 + 1 else t0);
          t = (if t1 > 1 then t1 - 1 else t1)
      in if t < 1 / 6 then p + (q - p) * 6 * t
         else if t < 1 / 2 then q
         else if t < 2 / 3 then p + (q - p) * (2 / 3 - t) * 6
         else p)"

definition hslToRgb :: "real \<Rightarrow> real \<Rightarrow> real \<Rightarrow> vec3" where
  "hslToRgb h s l =
     (if s = 0 then (l, l, l)
      else let q = (if l < 0.5 then l * (1 + s) else l + s - l * s);
               p = 2 * l - q
           in (hue2rgb p q (h + 1 / 3), hue2rgb p q h, hue2rgb p q (h - 1 / 3)))"

text \<open>A colour component is valid when it lies in the unit interval.\<close>

definition unit_interval :: "real \<Rightarrow> bool" where
  "unit_interval x = (0 \<le> x \<and> x \<le> 1)"

fun valid_rgb :: "vec3 \<Rightarrow> bool" where
  "valid_rgb (r, g, b) = (unit_interval r \<and> unit_interval g \<and> unit_interval b)"

section \<open>WebGL texture objects and sampling\<close>

text \<open>
  Texture lookup is done by WebGL, not by the source; it is modelled here as the OpenGL ES
  specification defines it for the parameters that \<^verbatim>\<open>createFBO\<close> sets. A texture
  object holds its size, its two wrap modes and its texels. Every texture of the source is
  created by \<^verbatim>\<open>createFBO\<close> with the filters \<^verbatim>\<open>LINEAR\<close>, so the filter is not a
  field: sampling is always bilinear. The texel in column \<open>i\<close> and row \<open>j\<close> is
  \<open>texel img i j\<close>; only the texels with \<open>i < img_width img\<close> and
  \<open>j < img_height img\<close> exist on the GPU.
\<close>

datatype wrap_mode = CLAMP_TO_EDGE | REPEAT

record image =
  img_width :: nat
  img_height :: nat
  wrap_s :: wrap_mode
  wrap_t :: wrap_mode
  texel :: "nat \<Rightarrow> nat \<Rightarrow> vec4"

text \<open>
  The texel index that a wrap mode selects for an integer index of a row or column of
  \<open>n\<close> texels (OpenGL ES: \<^verbatim>\<open>CLAMP_TO_EDGE\<close> clamps the index to \<open>0 .. n - 1\<close>,
  \<^verbatim>\<open>REPEAT\<close> takes it modulo \<open>n\<close>). Clamping the two indices gives the same sample as
  clamping the coordinate to the centres of the edge texels, the older wording of the
  same wrap mode.
\<close>

definition wrap_index :: "wrap_mode \<Rightarrow> nat \<Rightarrow> int \<Rightarrow> nat" where
  "wrap_index m n i =
     (case m of
        CLAMP_TO_EDGE \<Rightarrow> nat (max 0 (min (int n - 1) i))
      | REPEAT \<Rightarrow> nat (i mod int n))"

text \<open>
  Bilinear filtering along one axis of \<open>n\<close> texels, whose centres are at
  \<open>(i + 1/2) / n\<close>: the two texel indices that the coordinate \<open>u\<close> lies between, after
  wrapping, and the weight of the second one.
\<close>

definition axis_taps :: "wrap_mode \<Rightarrow> nat \<Rightarrow> real \<Rightarrow> nat \<times> nat \<times> real" where
  "axis_taps m n u =
     (let x = u * real n - 1 / 2; i0 = \<lfloor>x\<rfloor>
      in (wrap_index m n i0, wrap_index m n (i0 + 1), x - of_int i0))"

text \<open>
  The four texels that a bilinear lookup at the normalised coordinate \<open>uv\<close> reads, each
  with its weight.
\<close>

definition linear_taps :: "image \<Rightarrow> vec2 \<Rightarrow> (real \<times> nat \<times> nat) list" where
  "linear_taps img uv =
     (let (il, ih, a) = axis_taps (wrap_s img) (img_width img) (fst uv);
          (jl, jh, b) = axis_taps (wrap_t img) (img_height img) (snd uv)
      in [((1 - a) * (1 - b), il, jl), (a * (1 - b), ih, jl),
          ((1 - a) * b, il, jh), (a * b, ih, jh)])"

text \<open>
  GLSL \<^verbatim>\<open>texture2D\<close>: the weighted sum of the four texels. A texture without storage is
  incomplete and samples as opaque black.
\<close>

definition texture2D :: "image \<Rightarrow> vec2 \<Rightarrow> vec4" where
  "texture2D img uv =
     (if img_width img = 0 \<or> img_height img = 0 then (0, 0, 0, 1)
      else foldr (\<lambda>(k, i, j) acc. vec4_add (vec4_scale k (texel img i j)) acc)
             (linear_taps img uv) (0, 0, 0, 0))"


text \<open>
  A texture as \<^verbatim>\<open>createFBO(n, n)\<close> makes it: \<open>n\<close> by \<open>n\<close> texels and both wrap
  modes \<^verbatim>\<open>CLAMP_TO_EDGE\<close>.
\<close>

definition clamped :: "nat \<Rightarrow> image \<Rightarrow> bool" where
  "clamped n img =
     (img_width img = n \<and> img_height img = n
      \<and> wrap_s img = CLAMP_TO_EDGE \<and> wrap_t img = CLAMP_TO_EDGE)"

text \<open>
  The neighbours of a cell index in a row or column of \<open>n\<close> cells, clamped at the edge:
  at the first cell the neighbour before it is the cell itself, and so is the neighbour
  after the last cell.
\<close>

definition before :: "nat \<Rightarrow> nat" where
  "before i = (if i = 0 then 0 else i - 1)"

definition after :: "nat \<Rightarrow> nat \<Rightarrow> nat" where
  "after n i = (if i + 1 < n then i + 1 else i)"

section \<open>The fragment shaders\<close>

text \<open>
  The source uses two texture units, \<^verbatim>\<open>gl.TEXTURE0\<close> and \<^verbatim>\<open>gl.TEXTURE1\<close>; a sampler
  uniform that holds 0 or 1 reads the texture bound to the one or the other.
\<close>

datatype texture_unit = TEXTURE0 | TEXTURE1

text \<open>
  A shader is a function of the values of its uniforms, of the textures bound to the
  texture units (\<open>tex u\<close> is the texture object bound to unit \<open>u\<close>) and of the varying
  \<^verbatim>\<open>v_uv\<close>; its value is \<^verbatim>\<open>gl_FragColor\<close>.
\<close>

definition clearShader :: "vec4 \<Rightarrow> (texture_unit \<Rightarrow> image) \<Rightarrow> vec2 \<Rightarrow> vec4" where
  "clearShader u_color tex v_uv = u_color"

definition splatShader ::
  "texture_unit \<Rightarrow> vec2 \<Rightarrow> vec3 \<Rightarrow> real \<Rightarrow> real \<Rightarrow> (texture_unit \<Rightarrow> image) \<Rightarrow> vec2 \<Rightarrow> vec4" where
  "splatShader u_texture u_point u_color u_radius u_aspectRatio tex v_uv =
     (let px = (fst v_uv - fst u_point) * u_aspectRatio;
          py = snd v_uv - snd u_point;
          d = sqrt (px * px + py * py);
          splash = exp (- d * d / u_radius);
          (r, g, b) = sel_rgb (texture2D (tex u_texture) v_uv);
          (cr, cg, cb) = u_color
      in (r + splash * cr, g + splash * cg, b + splash * cb, 1))"

definition advectionShader ::
  "texture_unit \<Rightarrow> texture_unit \<Rightarrow> vec2 \<Rightarrow> real \<Rightarrow> real \<Rightarrow> (texture_unit \<Rightarrow> image) \<Rightarrow> vec2 \<Rightarrow> vec4" where
  "advectionShader u_velocity u_source u_texelSize u_dt u_dissipation tex v_uv =
     (let (velx, vely) = sel_xy (texture2D (tex u_velocity) v_uv);
          coord = (fst v_uv - u_dt * velx * fst u_texelSize,
                   snd v_uv - u_dt * vely * snd u_texelSize)
      in vec4_scale u_dissipation (texture2D (tex u_source) coord))"

definition divergenceShader :: "texture_unit \<Rightarrow> vec2 \<Rightarrow> (texture_unit \<Rightarrow> image) \<Rightarrow> vec2 \<Rightarrow> vec4" where
  "divergenceShader u_velocity u_texelSize tex v_uv =
     (let L = sel_x (texture2D (tex u_velocity) (fst v_uv - fst u_texelSize, snd v_uv));
          R = sel_x (texture2D (tex u_velocity) (fst v_uv + fst u_texelSize, snd v_uv));
          B = sel_y (texture2D (tex u_velocity) (fst v_uv, snd v_uv - snd u_texelSize));
          T = sel_y (texture2D (tex u_velocity) (fst v_uv, snd v_uv + snd u_texelSize));
          divergence = 0.5 * (R - L + T - B)
      in (divergence, 0, 0, 1))"

definition pressureShader ::
  "texture_unit \<Rightarrow> texture_unit \<Rightarrow> vec2 \<Rightarrow> (texture_unit \<Rightarrow> image) \<Rightarrow> vec2 \<Rightarrow> vec4" where
  "pressureShader u_pressure u_divergence u_texelSize tex v_uv =
     (let L = sel_x (texture2D (tex u_pressure) (fst v_uv - fst u_texelSize, snd v_uv));
          R = sel_x (texture2D (tex u_pressure) (fst v_uv + fst u_texelSize, snd v_uv));
          B = sel_x (texture2D (tex u_pressure) (fst v_uv, snd v_uv - snd u_texelSize));
          T = sel_x (texture2D (tex u_pressure) (fst v_uv, snd v_uv + snd u_texelSize));
          C = sel_x (texture2D (tex u_divergence) v_uv);
          pressure = (L + R + B + T - C) * 0.25
      in (pressure, 0, 0, 1))"

definition gradientSubtractShader ::
  "texture_unit \<Rightarrow> texture_unit \<Rightarrow> vec2 \<Rightarrow> (texture_unit \<Rightarrow> image) \<Rightarrow> vec2 \<Rightarrow> vec4" where
  "gradientSubtractShader u_pressure u_velocity u_texelSize tex v_uv =
     (let L = sel_x (texture2D (tex u_pressure) (fst v_uv - fst u_texelSize, snd v_uv));
          R = sel_x (texture2D (tex u_pressure) (fst v_uv + fst u_texelSize, snd v_uv));
          B = sel_x (texture2D (tex u_pressure) (fst v_uv, snd v_uv - snd u_texelSize));
          T = sel_x (texture2D (tex u_pressure) (fst v_uv, snd v_uv + snd u_texelSize));
          (velx, vely) = sel_xy (texture2D (tex u_velocity) v_uv)
      in (velx - (R - L) * 0.5, vely - (T - B) * 0.5, 0, 1))"

definition curlShader :: "texture_unit \<Rightarrow> vec2 \<Rightarrow> (texture_unit \<Rightarrow> image) \<Rightarrow> vec2 \<Rightarrow> vec4" where
  "curlShader u_velocity u_texelSize tex v_uv =
     (let L = sel_y (texture2D (tex u_velocity) (fst v_uv - fst u_texelSize, snd v_uv));
          R = sel_y (texture2D (tex u_velocity) (fst v_uv + fst u_texelSize, snd v_uv));
          B = sel_x (texture2D (tex u_velocity) (fst v_uv, snd v_uv - snd u_texelSize));
          T = sel_x (texture2D (tex u_velocity) (fst v_uv, snd v_uv + snd u_texelSize));
          curl = (R - L) - (T - B)
      in (curl * 0.5, 0, 0, 1))"

definition displayDyeShader :: "texture_unit \<Rightarrow> (texture_unit \<Rightarrow> image) \<Rightarrow> vec2 \<Rightarrow> vec4" where
  "displayDyeShader u_texture tex v_uv =
     (let (r, g, b) = sel_rgb (texture2D (tex u_texture) v_uv) in (r, g, b, 1))"

definition displayVelocityShader :: "texture_unit \<Rightarrow> (texture_unit \<Rightarrow> image) \<Rightarrow> vec2 \<Rightarrow> vec4" where
  "displayVelocityShader u_texture tex v_uv =
     (let (velx, vely) = sel_xy (texture2D (tex u_texture) v_uv);
          mag = sqrt (velx * velx + vely * vely) * 3
      in (0.5 + 0.5 * velx * 3, 0.5 + 0.5 * vely * 3, 0.5 + 0.5 * mag, 1))"

definition displayPressureShader :: "texture_unit \<Rightarrow> (texture_unit \<Rightarrow> image) \<Rightarrow> vec2 \<Rightarrow> vec4" where
  "displayPressureShader u_texture tex v_uv =
     (let p = sel_x (texture2D (tex u_texture) v_uv) * 0.5 + 0.5 in (p, 0.2, 1 - p, 1))"

definition displayCurlShader :: "texture_unit \<Rightarrow> (texture_unit \<Rightarrow> image) \<Rightarrow> vec2 \<Rightarrow> vec4" where
  "displayCurlShader u_texture tex v_uv =
     (let curl = sel_x (texture2D (tex u_texture) v_uv)
      in if curl > 0 then (0.06 * curl * 5, 0.72 * curl * 5, 0.53 * curl * 5, 1)
         else (0.98 * (- curl) * 5, 0.45 * (- curl) * 5, 0.09 * (- curl) * 5, 1))"

section \<open>The state of the simulation\<close>

text \<open>
  The compiled programs (\<^verbatim>\<open>programs.copy\<close>, \<^verbatim>\<open>programs.clear\<close>, ...), one per
  fragment shader.
\<close>

datatype program =
  Copy | Clear | Splat | Advection | Divergence | Pressure | GradientSubtract | Curl
  | DisplayDye | DisplayVelocity | DisplayPressure | DisplayCurl

text \<open>
  The object \<^verbatim>\<open>{ texture, fbo, width, height }\<close> that \<^verbatim>\<open>createFBO\<close> returns. A
  texture is named by a number, as in OpenGL; the framebuffer object has this texture as
  its only attachment and is identified with it. \<^verbatim>\<open>createDoubleFBO\<close> returns a pair
  of them with a \<^verbatim>\<open>swap\<close> method.
\<close>

record fbo =
  texture :: nat
  width :: nat
  height :: nat

record doubleFBO =
  read :: fbo
  "write" :: fbo

definition swap :: "doubleFBO \<Rightarrow> doubleFBO" where
  "swap d = \<lparr>read = write d, write = read d\<rparr>"

text \<open>
  One call of \<^verbatim>\<open>gl.drawArrays\<close>: the program in use, the textures bound to the units
  that the program's samplers read, and the texture drawn into (\<open>None\<close> is the canvas).
\<close>

record draw =
  draw_program :: program
  draw_inputs :: "nat list"
  draw_target :: "nat option"

text \<open>
  The module-level variables of the source together with the state of the WebGL context
  that the simulation uses: the texture objects, the texture bound to each texture unit,
  the active unit, the pixels of the canvas, and the calls of \<^verbatim>\<open>gl.drawArrays\<close> made so
  far. The properties of the objects \<^verbatim>\<open>textures\<close> and \<^verbatim>\<open>simParams\<close> are the fields
  \<open>textures_velocity\<close>, ..., \<open>simParams_viscosity\<close>, ... of the one record.
  \<^verbatim>\<open>simParams.pressureIterations\<close> is a JavaScript number produced by
  \<^verbatim>\<open>parseInt\<close>: an integer or NaN (\<open>None\<close>). \<open>dom_textContent\<close> maps the id of an
  element of the page to its text.
\<close>

record state =
  gl_tex :: "nat \<Rightarrow> image"
  gl_unit :: "texture_unit \<Rightarrow> nat"
  gl_active :: texture_unit
  gl_next :: nat
  gl_canvas :: "nat \<Rightarrow> nat \<Rightarrow> vec4"
  gl_draws :: "draw list"
  canvas_width :: nat
  canvas_height :: nat
  textures_velocity :: doubleFBO
  textures_pressure :: doubleFBO
  textures_divergence :: fbo
  textures_curl :: fbo
  textures_dye :: doubleFBO
  simParams_viscosity :: real
  simParams_diffusion :: real
  simParams_pressureIterations :: "int option"
  simParams_displayMode :: string
  isPaused :: bool
  mousePos :: vec2
  lastMousePos :: vec2
  isMouseDown :: bool
  dom_textContent :: "string \<Rightarrow> string"

definition SIM_RESOLUTION :: nat where
  "SIM_RESOLUTION = 256"

definition DYE_RESOLUTION :: nat where
  "DYE_RESOLUTION = 512"

text \<open>The calls \<^verbatim>\<open>textures.velocity.swap()\<close>, \<^verbatim>\<open>textures.pressure.swap()\<close> and
  \<^verbatim>\<open>textures.dye.swap()\<close>.\<close>

definition swap_velocity :: "state \<Rightarrow> state" where
  "swap_velocity s = s\<lparr>textures_velocity := swap (textures_velocity s)\<rparr>"

definition swap_pressure :: "state \<Rightarrow> state" where
  "swap_pressure s = s\<lparr>textures_pressure := swap (textures_pressure s)\<rparr>"

definition swap_dye :: "state \<Rightarrow> state" where
  "swap_dye s = s\<lparr>textures_dye := swap (textures_dye s)\<rparr>"

section \<open>WebGL calls\<close>

definition activeTexture :: "texture_unit \<Rightarrow> state \<Rightarrow> state" where
  "activeTexture u s = s\<lparr>gl_active := u\<rparr>"

definition bindTexture :: "nat \<Rightarrow> state \<Rightarrow> state" where
  "bindTexture t s = s\<lparr>gl_unit := (gl_unit s)(gl_active s := t)\<rparr>"

text \<open>
  The vertex shader maps the quad onto the whole viewport with \<^verbatim>\<open>v_uv\<close> running from 0
  to 1, so the fragment of pixel \<open>(i, j)\<close> of a \<open>w\<close> by \<open>h\<close> viewport has \<^verbatim>\<open>v_uv\<close> at
  the pixel's centre.
\<close>

definition pixel_uv :: "nat \<Rightarrow> nat \<Rightarrow> nat \<Rightarrow> nat \<Rightarrow> vec2" where
  "pixel_uv w h i j = ((real i + 1 / 2) / real w, (real j + 1 / 2) / real h)"

definition write_pixels ::
  "nat \<Rightarrow> nat \<Rightarrow> (vec2 \<Rightarrow> vec4) \<Rightarrow> (nat \<Rightarrow> nat \<Rightarrow> vec4) \<Rightarrow> nat \<Rightarrow> nat \<Rightarrow> vec4" where
  "write_pixels w h frag old i j = (if i < w \<and> j < h then frag (pixel_uv w h i j) else old i j)"

text \<open>
  \<^verbatim>\<open>blit(target)\<close> draws the quad with the program in use into the texture of
  \<open>target\<close>, or into the canvas when \<open>target\<close> is null. The program and the values of
  its uniforms are arguments here: \<open>prog\<close> names the program, \<open>units\<close> lists the values
  of its sampler uniforms and \<open>shader\<close> is its fragment shader applied to the values of
  its uniforms. In the source every draw is preceded, in the same function, by
  \<^verbatim>\<open>gl.useProgram\<close> and by the assignment of every uniform that the program reads. The
  textures are those bound to the texture units when the draw is made, and the shader
  reads them as they are before the draw: a draw that samples the texture it draws into
  has no defined result in WebGL, and none of the draws of a well-formed state does so.
\<close>

definition blit ::
  "program \<Rightarrow> texture_unit list \<Rightarrow> ((texture_unit \<Rightarrow> image) \<Rightarrow> vec2 \<Rightarrow> vec4) \<Rightarrow> fbo option \<Rightarrow> state \<Rightarrow> state" where
  "blit prog units shader target s =
     (let frag = shader (\<lambda>u. gl_tex s (gl_unit s u))
      in case target of
           Some t \<Rightarrow>
             s\<lparr>gl_tex := (gl_tex s)(texture t :=
                    (gl_tex s (texture t))\<lparr>texel :=
                       write_pixels (width t) (height t) frag (texel (gl_tex s (texture t)))\<rparr>),
               gl_draws := gl_draws s @
                    [\<lparr>draw_program = prog, draw_inputs = map (gl_unit s) units,
                      draw_target = Some (texture t)\<rparr>]\<rparr>
         | None \<Rightarrow>
             s\<lparr>gl_canvas := write_pixels (canvas_width s) (canvas_height s) frag (gl_canvas s),
               gl_draws := gl_draws s @
                    [\<lparr>draw_program = prog, draw_inputs = map (gl_unit s) units,
                      draw_target = None\<rparr>]\<rparr>)"

section \<open>Creating the textures\<close>

text \<open>
  \<^verbatim>\<open>createFBO(w, h)\<close>: a fresh texture, bound to the active unit, with bilinear
  filtering, both wrap modes \<^verbatim>\<open>CLAMP_TO_EDGE\<close> and \<open>w\<close> by \<open>h\<close> texels, which WebGL
  initialises to zero.
\<close>

definition createFBO :: "nat \<Rightarrow> nat \<Rightarrow> state \<Rightarrow> fbo \<times> state" where
  "createFBO w h s =
     (let t = gl_next s;
          s1 = bindTexture t (s\<lparr>gl_next := t + 1\<rparr>);
          s2 = s1\<lparr>gl_tex := (gl_tex s1)(t :=
                  \<lparr>img_width = w, img_height = h, wrap_s = CLAMP_TO_EDGE, wrap_t = CLAMP_TO_EDGE,
                   texel = (\<lambda>i j. (0, 0, 0, 0))\<rparr>)\<rparr>
      in (\<lparr>texture = t, width = w, height = h\<rparr>, s2))"

definition createDoubleFBO :: "nat \<Rightarrow> nat \<Rightarrow> state \<Rightarrow> doubleFBO \<times> state" where
  "createDoubleFBO w h s =
     (let (fbo1, s1) = createFBO w h s;
          (fbo2, s2) = createFBO w h s1
      in (\<lparr>read = fbo1, write = fbo2\<rparr>, s2))"

definition createTextures :: "state \<Rightarrow> state" where
  "createTextures s =
     (let (v, s1) = createDoubleFBO SIM_RESOLUTION SIM_RESOLUTION s;
          (p, s2) = createDoubleFBO SIM_RESOLUTION SIM_RESOLUTION s1;
          (d, s3) = createFBO SIM_RESOLUTION SIM_RESOLUTION s2;
          (c, s4) = createFBO SIM_RESOLUTION SIM_RESOLUTION s3;
          (y, s5) = createDoubleFBO DYE_RESOLUTION DYE_RESOLUTION s4
      in s5\<lparr>textures_velocity := v, textures_pressure := p, textures_divergence := d,
            textures_curl := c, textures_dye := y\<rparr>)"

text \<open>
  The module-level variables as the source initialises them, in a fresh WebGL context
  (texture names start at 1; the name 0 is no texture) with a canvas \<open>w\<close> pixels wide and
  500 high (\<^verbatim>\<open>resizeCanvas\<close>), and the state after \<^verbatim>\<open>createTextures\<close> of \<^verbatim>\<open>init\<close>.
\<close>

definition no_texture :: image where
  "no_texture = \<lparr>img_width = 0, img_height = 0, wrap_s = REPEAT, wrap_t = REPEAT,
                 texel = (\<lambda>i j. (0, 0, 0, 0))\<rparr>"

definition globals :: "nat \<Rightarrow> state" where
  "globals w =
     \<lparr>gl_tex = (\<lambda>t. no_texture), gl_unit = (\<lambda>u. 0), gl_active = TEXTURE0, gl_next = 1,
      gl_canvas = (\<lambda>i j. (0, 0, 0, 0)), gl_draws = [],
      canvas_width = w, canvas_height = 500,
      textures_velocity = \<lparr>read = \<lparr>texture = 0, width = 0, height = 0\<rparr>,
                            write = \<lparr>texture = 0, width = 0, height = 0\<rparr>\<rparr>,
      textures_pressure = \<lparr>read = \<lparr>texture = 0, width = 0, height = 0\<rparr>,
                            write = \<lparr>texture = 0, width = 0, height = 0\<rparr>\<rparr>,
      textures_divergence = \<lparr>texture = 0, width = 0, height = 0\<rparr>,
      textures_curl = \<lparr>texture = 0, width = 0, height = 0\<rparr>,
      textures_dye = \<lparr>read = \<lparr>texture = 0, width = 0, height = 0\<rparr>,
                       write = \<lparr>texture = 0, width = 0, height = 0\<rparr>\<rparr>,
      simParams_viscosity = 0.1, simParams_diffusion = 0.2,
      simParams_pressureIterations = Some 20, simParams_displayMode = ''dye'',
      isPaused = False, mousePos = (0, 0), lastMousePos = (0, 0), isMouseDown = False,
      dom_textContent = (\<lambda>e. [])\<rparr>"

definition init_state :: "nat \<Rightarrow> state" where
  "init_state w = createTextures (globals w)"

section \<open>Injection\<close>

text \<open>
  The JavaScript remainder \<^verbatim>\<open>x % 1\<close>: the quotient is truncated towards zero, so the
  result has the sign of \<open>x\<close>.
\<close>

definition js_rem1 :: "real \<Rightarrow> real" where
  "js_rem1 x = x - of_int (if 0 \<le> x then \<lfloor>x\<rfloor> else \<lceil>x\<rceil>)"

text \<open>
  \<^verbatim>\<open>splat(x, y, dx, dy, color)\<close>; \<open>now\<close> is the value that \<^verbatim>\<open>Date.now()\<close> returns.
  The parameter \<^verbatim>\<open>color\<close> is not used by the source (and \<^verbatim>\<open>step\<close> does not pass it).
  The dye splat binds its texture without selecting a unit: unit 0 is still active. The
  uniform \<^verbatim>\<open>u_aspectRatio\<close> is assigned once and keeps its value for the second draw;
  \<^verbatim>\<open>canvas.height\<close> is 500 in every state that the page reaches, so the quotient is
  a number.
\<close>

definition splat :: "real \<Rightarrow> real \<Rightarrow> real \<Rightarrow> real \<Rightarrow> int \<Rightarrow> state \<Rightarrow> state" where
  "splat x y dx dy now s =
     (let aspectRatio = real (canvas_width s) / real (canvas_height s);
          s1 = activeTexture TEXTURE0 s;
          s2 = bindTexture (texture (read (textures_velocity s1))) s1;
          s3 = blit Splat [TEXTURE0] (splatShader TEXTURE0 (x, y) (dx * 10, dy * 10, 0) 0.002 aspectRatio)
                 (Some (write (textures_velocity s2))) s2;
          s4 = swap_velocity s3;
          hue = js_rem1 (real_of_int now * 0.001);
          rgb = hslToRgb hue 0.8 0.5;
          s5 = bindTexture (texture (read (textures_dye s4))) s4;
          s6 = blit Splat [TEXTURE0] (splatShader TEXTURE0 (x, y) rgb 0.003 aspectRatio)
                 (Some (write (textures_dye s5))) s5
      in swap_dye s6)"

section \<open>The simulation step\<close>

text \<open>
  \<^verbatim>\<open>step(dt)\<close> is a sequence of blocks, each introduced by a comment in the source; each
  block is a function here, named after its comment. \<^verbatim>\<open>setupProgram\<close> selects the
  program and assigns \<^verbatim>\<open>u_texelSize\<close> the reciprocal of \<^verbatim>\<open>SIM_RESOLUTION\<close>.
\<close>

definition simTexelSize :: vec2 where
  "simTexelSize = (1 / real SIM_RESOLUTION, 1 / real SIM_RESOLUTION)"

definition dyeTexelSize :: vec2 where
  "dyeTexelSize = (1 / real DYE_RESOLUTION, 1 / real DYE_RESOLUTION)"

text \<open>Process mouse input.\<close>

definition processMouseInput :: "int \<Rightarrow> state \<Rightarrow> state" where
  "processMouseInput now s =
     (if isMouseDown s
      then let dx = fst (mousePos s) - fst (lastMousePos s);
               dy = snd (mousePos s) - snd (lastMousePos s)
           in splat (fst (mousePos s)) (snd (mousePos s)) dx dy now s
      else s)"

text \<open>Advect velocity: both samplers read the velocity read buffer.\<close>

definition advectVelocity :: "real \<Rightarrow> state \<Rightarrow> state" where
  "advectVelocity dt s =
     (let s1 = bindTexture (texture (read (textures_velocity s))) (activeTexture TEXTURE0 s);
          s2 = bindTexture (texture (read (textures_velocity s1))) (activeTexture TEXTURE1 s1);
          s3 = blit Advection [TEXTURE0, TEXTURE1]
                 (advectionShader TEXTURE0 TEXTURE1 simTexelSize dt (1.0 - simParams_viscosity s2 * 0.1))
                 (Some (write (textures_velocity s2))) s2
      in swap_velocity s3)"

text \<open>
  Advect dye: the source assigns \<^verbatim>\<open>u_dissipation\<close> and \<^verbatim>\<open>u_texelSize\<close> anew and
  binds the dye read buffer to unit 1; \<^verbatim>\<open>u_dt\<close> and the binding of unit 0 are left as
  the velocity block set them.
\<close>

definition advectDye :: "real \<Rightarrow> state \<Rightarrow> state" where
  "advectDye dt s =
     (let s1 = bindTexture (texture (read (textures_dye s))) (activeTexture TEXTURE1 s);
          s2 = blit Advection [TEXTURE0, TEXTURE1]
                 (advectionShader TEXTURE0 TEXTURE1 dyeTexelSize dt (1.0 - simParams_diffusion s1 * 0.01))
                 (Some (write (textures_dye s1))) s1
      in swap_dye s2)"

text \<open>Divergence.\<close>

definition computeDivergence :: "state \<Rightarrow> state" where
  "computeDivergence s =
     (let s1 = bindTexture (texture (read (textures_velocity s))) (activeTexture TEXTURE0 s)
      in blit Divergence [TEXTURE0] (divergenceShader TEXTURE0 simTexelSize) (Some (textures_divergence s1)) s1)"

text \<open>Clear pressure.\<close>

definition clearPressure :: "state \<Rightarrow> state" where
  "clearPressure s =
     blit Clear [] (clearShader (0, 0, 0, 1)) (Some (read (textures_pressure s))) s"

text \<open>
  Pressure solve (Jacobi iteration): the divergence texture is bound to unit 1 once, then
  the loop runs while \<^verbatim>\<open>i < simParams.pressureIterations\<close>, a comparison that is false
  when the count is NaN.
\<close>

definition js_less :: "int \<Rightarrow> int option \<Rightarrow> bool" where
  "js_less i n = (case n of None \<Rightarrow> False | Some k \<Rightarrow> i < k)"

definition bindDivergence :: "state \<Rightarrow> state" where
  "bindDivergence s = bindTexture (texture (textures_divergence s)) (activeTexture TEXTURE1 s)"

definition pressureIteration :: "state \<Rightarrow> state" where
  "pressureIteration s =
     (let s1 = bindTexture (texture (read (textures_pressure s))) (activeTexture TEXTURE0 s);
          s2 = blit Pressure [TEXTURE0, TEXTURE1] (pressureShader TEXTURE0 TEXTURE1 simTexelSize)
                 (Some (write (textures_pressure s1))) s1
      in swap_pressure s2)"

function pressureLoop :: "int \<Rightarrow> state \<Rightarrow> state" where
  "pressureLoop i s =
     (if js_less i (simParams_pressureIterations s)
      then pressureLoop (i + 1) (pressureIteration s)
      else s)"
  by pat_completeness auto
termination
  by (relation "measure (\<lambda>(i, s). case simParams_pressureIterations s of
                                      None \<Rightarrow> 0 | Some k \<Rightarrow> nat (k - i))")
     (auto simp: js_less_def pressureIteration_def swap_pressure_def blit_def bindTexture_def activeTexture_def
        Let_def split: option.splits)

declare pressureLoop.simps [simp del]

text \<open>
  The number of runs of the loop body that the loop condition allows for the value of
  \<^verbatim>\<open>simParams.pressureIterations\<close>: none when it is NaN, zero or negative.
\<close>

definition iterationCount :: "state \<Rightarrow> nat" where
  "iterationCount s = (case simParams_pressureIterations s of None \<Rightarrow> 0 | Some k \<Rightarrow> nat k)"

definition pressureSolve :: "state \<Rightarrow> state" where
  "pressureSolve s = pressureLoop 0 (bindDivergence s)"

text \<open>Gradient subtraction.\<close>

definition gradientSubtraction :: "state \<Rightarrow> state" where
  "gradientSubtraction s =
     (let s1 = bindTexture (texture (read (textures_pressure s))) (activeTexture TEXTURE0 s);
          s2 = bindTexture (texture (read (textures_velocity s1))) (activeTexture TEXTURE1 s1);
          s3 = blit GradientSubtract [TEXTURE0, TEXTURE1] (gradientSubtractShader TEXTURE0 TEXTURE1 simTexelSize)
                 (Some (write (textures_velocity s2))) s2
      in swap_velocity s3)"

text \<open>Compute curl for display.\<close>

definition computeCurl :: "state \<Rightarrow> state" where
  "computeCurl s =
     (let s1 = bindTexture (texture (read (textures_velocity s))) (activeTexture TEXTURE0 s)
      in blit Curl [TEXTURE0] (curlShader TEXTURE0 simTexelSize) (Some (textures_curl s1)) s1)"

definition step :: "real \<Rightarrow> int \<Rightarrow> state \<Rightarrow> state" where
  "step dt now s =
     (let s1 = processMouseInput now s;
          s2 = advectVelocity dt s1;
          s3 = advectDye dt s2;
          s4 = computeDivergence s3;
          s5 = clearPressure s4;
          s6 = pressureSolve s5;
          s7 = gradientSubtraction s6
      in computeCurl s7)"

text \<open>
  Two prefixes of \<^verbatim>\<open>step\<close>: the state when both advections are done, and the state in
  which the loop of the pressure solve is entered.
\<close>

definition afterAdvection :: "real \<Rightarrow> int \<Rightarrow> state \<Rightarrow> state" where
  "afterAdvection dt now s = advectDye dt (advectVelocity dt (processMouseInput now s))"

definition beforePressureLoop :: "real \<Rightarrow> int \<Rightarrow> state \<Rightarrow> state" where
  "beforePressureLoop dt now s =
     bindDivergence (clearPressure (computeDivergence (afterAdvection dt now s)))"

section \<open>Display and the frame callback\<close>

definition display :: "state \<Rightarrow> state" where
  "display s =
     (let (displayProgram, displayShader, displayTexture) =
            (if simParams_displayMode s = ''velocity''
             then (DisplayVelocity, displayVelocityShader TEXTURE0, texture (read (textures_velocity s)))
             else if simParams_displayMode s = ''pressure''
             then (DisplayPressure, displayPressureShader TEXTURE0, texture (read (textures_pressure s)))
             else if simParams_displayMode s = ''curl''
             then (DisplayCurl, displayCurlShader TEXTURE0, texture (textures_curl s))
             else (DisplayDye, displayDyeShader TEXTURE0, texture (read (textures_dye s))));
          s1 = bindTexture displayTexture (activeTexture TEXTURE0 s)
      in blit displayProgram [TEXTURE0] displayShader None s1)"

text \<open>
  One call of \<^verbatim>\<open>render\<close>, which is one tick: \<^verbatim>\<open>requestAnimationFrame(render)\<close> at its
  end hands the next call to the browser.
\<close>

definition render :: "int \<Rightarrow> state \<Rightarrow> state" where
  "render now s = display (if \<not> isPaused s then step 0.016 now s else s)"

section \<open>Control functions\<close>

text \<open>
  \<^verbatim>\<open>parseInt(val)\<close> without a radix, on a string of ASCII characters: leading white
  space is dropped, then a sign is read, then the prefix \<^verbatim>\<open>0x\<close> or \<^verbatim>\<open>0X\<close> selects
  radix 16, and the longest run of digits of the radix is the value; without a digit the
  result is NaN (\<open>None\<close>). The integer is exact here (JavaScript rounds beyond \<open>2^53\<close>).
\<close>

definition isWhiteSpace :: "char \<Rightarrow> bool" where
  "isWhiteSpace c = (c \<in> set [CHR 0x09, CHR 0x0A, CHR 0x0B, CHR 0x0C, CHR 0x0D, CHR 0x20])"

definition digitValue :: "char \<Rightarrow> nat option" where
  "digitValue c =
     (let n = (of_char c :: nat)
      in if 48 \<le> n \<and> n \<le> 57 then Some (n - 48)
         else if 97 \<le> n \<and> n \<le> 122 then Some (n - 87)
         else if 65 \<le> n \<and> n \<le> 90 then Some (n - 55)
         else None)"

fun radixDigits :: "nat \<Rightarrow> string \<Rightarrow> nat list" where
  "radixDigits R [] = []"
| "radixDigits R (c # cs) =
     (case digitValue c of
        None \<Rightarrow> []
      | Some d \<Rightarrow> if d < R then d # radixDigits R cs else [])"

definition parseInt :: "string \<Rightarrow> int option" where
  "parseInt val =
     (let S = dropWhile isWhiteSpace val;
          sign = (case S of c # cs \<Rightarrow> if c = CHR ''-'' then - 1 else 1 | [] \<Rightarrow> (1 :: int));
          S1 = (case S of c # cs \<Rightarrow> if c = CHR ''+'' \<or> c = CHR ''-'' then cs else S | [] \<Rightarrow> S);
          hex = (take 2 S1 = ''0x'' \<or> take 2 S1 = ''0X'');
          R = (if hex then 16 else 10);
          Z = radixDigits R (if hex then drop 2 S1 else S1)
      in if Z = [] then None else Some (sign * int (foldl (\<lambda>acc d. acc * R + d) 0 Z)))"

text \<open>
  \<^verbatim>\<open>parseFloat\<close> is an argument of the two functions that call it: its result is
  stored as it is.
\<close>

definition updateViscosity :: "(string \<Rightarrow> real) \<Rightarrow> string \<Rightarrow> state \<Rightarrow> state" where
  "updateViscosity parseFloat val s =
     s\<lparr>simParams_viscosity := parseFloat val,
       dom_textContent := (dom_textContent s)(''visc-value'' := val)\<rparr>"

definition updateDiffusion :: "(string \<Rightarrow> real) \<Rightarrow> string \<Rightarrow> state \<Rightarrow> state" where
  "updateDiffusion parseFloat val s =
     s\<lparr>simParams_diffusion := parseFloat val,
       dom_textContent := (dom_textContent s)(''diff-value'' := val)\<rparr>"

definition updateIterations :: "string \<Rightarrow> state \<Rightarrow> state" where
  "updateIterations val s =
     s\<lparr>simParams_pressureIterations := parseInt val,
       dom_textContent := (dom_textContent s)(''iter-value'' := val)\<rparr>"

definition updateDisplayMode :: "string \<Rightarrow> state \<Rightarrow> state" where
  "updateDisplayMode mode s = s\<lparr>simParams_displayMode := mode\<rparr>"

text \<open>\<^verbatim>\<open>clearFluid\<close>: six draws of the clear program with the colour \<open>(0, 0, 0, 1)\<close>.\<close>

definition clearFluid :: "state \<Rightarrow> state" where
  "clearFluid s =
     (let s1 = blit Clear [] (clearShader (0, 0, 0, 1)) (Some (read (textures_velocity s))) s;
          s2 = blit Clear [] (clearShader (0, 0, 0, 1)) (Some (write (textures_velocity s1))) s1;
          s3 = blit Clear [] (clearShader (0, 0, 0, 1)) (Some (read (textures_pressure s2))) s2;
          s4 = blit Clear [] (clearShader (0, 0, 0, 1)) (Some (write (textures_pressure s3))) s3;
          s5 = blit Clear [] (clearShader (0, 0, 0, 1)) (Some (read (textures_dye s4))) s4
      in blit Clear [] (clearShader (0, 0, 0, 1)) (Some (write (textures_dye s5))) s5)"

definition togglePause :: "state \<Rightarrow> state" where
  "togglePause s =
     (let s1 = s\<lparr>isPaused := \<not> isPaused s\<rparr>
      in s1\<lparr>dom_textContent := (dom_textContent s1)
              (''pause-text'' := (if isPaused s1 then ''Resume'' else ''Pause''))\<rparr>)"

section \<open>Well-formed states\<close>

text \<open>
  The eight textures of the five fields are distinct objects, each of the size and with
  the wrap modes that \<^verbatim>\<open>createTextures\<close> gave it, and the canvas has pixels.
\<close>

definition fbo_ok :: "state \<Rightarrow> nat \<Rightarrow> fbo \<Rightarrow> bool" where
  "fbo_ok s n f = (width f = n \<and> height f = n \<and> clamped n (gl_tex s (texture f)))"

definition fields :: "state \<Rightarrow> fbo list" where
  "fields s =
     [read (textures_velocity s), write (textures_velocity s),
      read (textures_pressure s), write (textures_pressure s),
      textures_divergence s, textures_curl s,
      read (textures_dye s), write (textures_dye s)]"

definition well_formed :: "state \<Rightarrow> bool" where
  "well_formed s =
     (distinct (map texture (fields s))
      \<and> fbo_ok s SIM_RESOLUTION (read (textures_velocity s))
      \<and> fbo_ok s SIM_RESOLUTION (write (textures_velocity s))
      \<and> fbo_ok s SIM_RESOLUTION (read (textures_pressure s))
      \<and> fbo_ok s SIM_RESOLUTION (write (textures_pressure s))
      \<and> fbo_ok s SIM_RESOLUTION (textures_divergence s)
      \<and> fbo_ok s SIM_RESOLUTION (textures_curl s)
      \<and> fbo_ok s DYE_RESOLUTION (read (textures_dye s))
      \<and> fbo_ok s DYE_RESOLUTION (write (textures_dye s)))"

section \<open>Reachable states\<close>

text \<open>
  The states that the page can reach: \<^verbatim>\<open>init\<close> creates the textures, the browser calls
  \<^verbatim>\<open>render\<close> once per frame, and between frames the event listeners set the pointer
  state and the size of the canvas and the controls of the page call the control
  functions.
\<close>

inductive reachable :: "state \<Rightarrow> bool" where
  start: "reachable (init_state w)"
| tick: "reachable s \<Longrightarrow> reachable (render now s)"
| pointer: "reachable s \<Longrightarrow> reachable (s\<lparr>isMouseDown := b, mousePos := p, lastMousePos := q\<rparr>)"
| resize: "reachable s \<Longrightarrow> reachable (s\<lparr>canvas_width := w\<rparr>)"
| viscosity: "reachable s \<Longrightarrow> reachable (updateViscosity parseFloat val s)"
| diffusion: "reachable s \<Longrightarrow> reachable (updateDiffusion parseFloat val s)"
| iterations: "reachable s \<Longrightarrow> reachable (updateIterations val s)"
| mode: "reachable s \<Longrightarrow> reachable (updateDisplayMode m s)"
| clear: "reachable s \<Longrightarrow> reachable (clearFluid s)"
| pause: "reachable s \<Longrightarrow> reachable (togglePause s)"

section \<open>The fields as grids of cells\<close>

text \<open>
  The value of each field at the cell in column \<open>i\<close> and row \<open>j\<close>: the components that
  the shaders read from the texture of the field (of its read buffer when the field is
  double-buffered).
\<close>

definition velocity_at :: "state \<Rightarrow> nat \<Rightarrow> nat \<Rightarrow> vec2" where
  "velocity_at s i j = sel_xy (texel (gl_tex s (texture (read (textures_velocity s)))) i j)"

definition pressure_at :: "state \<Rightarrow> nat \<Rightarrow> nat \<Rightarrow> real" where
  "pressure_at s i j = sel_x (texel (gl_tex s (texture (read (textures_pressure s)))) i j)"

definition divergence_at :: "state \<Rightarrow> nat \<Rightarrow> nat \<Rightarrow> real" where
  "divergence_at s i j = sel_x (texel (gl_tex s (texture (textures_divergence s))) i j)"

definition curl_at :: "state \<Rightarrow> nat \<Rightarrow> nat \<Rightarrow> real" where
  "curl_at s i j = sel_x (texel (gl_tex s (texture (textures_curl s))) i j)"

definition dye_at :: "state \<Rightarrow> nat \<Rightarrow> nat \<Rightarrow> vec3" where
  "dye_at s i j = sel_rgb (texel (gl_tex s (texture (read (textures_dye s)))) i j)"

section \<open>Properties of the colour conversion\<close>

lemma hue2rgb_between:
  assumes "p \<le> q" and "- 1 \<le> t0"
  shows "p \<le> hue2rgb p q t0 \<and> hue2rgb p q t0 \<le> q"
proof -
  define t1 where "t1 = (if t0 < 0 then t0 + 1 else t0)"
  define t where "t = (if t1 > 1 then t1 - 1 else t1)"
  have t0: "0 \<le> t" using assms(2) by (simp add: t_def t1_def)
  have d: "0 \<le> q - p" using assms(1) by simp
  have val: "hue2rgb p q t0 =
      (if t < 1 / 6 then p + (q - p) * 6 * t
       else if t < 1 / 2 then q
       else if t < 2 / 3 then p + (q - p) * (2 / 3 - t) * 6
       else p)"
    by (simp add: hue2rgb_def t_def t1_def Let_def)
  show ?thesis
  proof (cases "t < 1 / 6")
    case True
    define x where "x = (q - p) * t"
    have lo: "0 \<le> x" using d t0 by (simp add: x_def)
    have hi: "x \<le> (q - p) * (1 / 6)"
      unfolding x_def using d True by (intro mult_left_mono) simp_all
    have "hue2rgb p q t0 = p + 6 * x" using True val by (simp add: x_def algebra_simps)
    with lo hi show ?thesis by simp
  next
    case a: False
    show ?thesis
    proof (cases "t < 1 / 2")
      case True
      with a val assms(1) show ?thesis by simp
    next
      case b: False
      show ?thesis
      proof (cases "t < 2 / 3")
        case True
        define x where "x = (q - p) * (2 / 3 - t)"
        have lo: "0 \<le> x" using d True by (simp add: x_def)
        have hi: "x \<le> (q - p) * (1 / 6)"
          unfolding x_def using d b by (intro mult_left_mono) simp_all
        have "hue2rgb p q t0 = p + 6 * x"
          using a b True val by (simp add: x_def algebra_simps)
        with lo hi show ?thesis by simp
      next
        case False
        with a b val assms(1) show ?thesis by simp
      qed
    qed
  qed
qed

lemma hsl_pq_bounds:
  fixes s l :: real
  assumes "0 \<le> s" "s \<le> 1" "0 \<le> l" "l \<le> 1"
  defines "q \<equiv> (if l < 0.5 then l * (1 + s) else l + s - l * s)"
  shows "0 \<le> 2 * l - q \<and> 2 * l - q \<le> q \<and> q \<le> 1"
proof -
  have ls: "0 \<le> l * s" using assms(1,3) by simp
  have ls1: "l * s \<le> l" using mult_left_mono [of s 1 l] assms(2,3) by simp
  have ls2: "l * s \<le> s" using mult_right_mono [of l 1 s] assms(1,4) by simp
  have ls3: "s - l * s \<le> 1 - l"
    using mult_right_mono [of s 1 "1 - l"] assms(2,4) by (simp add: algebra_simps)
  show ?thesis
  proof (cases "l < 0.5")
    case True
    then have "q = l + l * s" by (simp add: q_def algebra_simps)
    with True ls ls1 ls2 show ?thesis by linarith
  next
    case False
    then have "q = l + s - l * s" by (simp add: q_def)
    with False ls ls2 ls3 show ?thesis by linarith
  qed
qed

lemma hslToRgb_bounds:
  assumes "0 \<le> s" "s \<le> 1" "0 \<le> l" "l \<le> 1" "- 2 / 3 \<le> h"
  shows "valid_rgb (hslToRgb h s l)"
proof (cases "s = 0")
  case True
  then show ?thesis using assms by (simp add: hslToRgb_def unit_interval_def)
next
  case False
  define q where "q = (if l < 0.5 then l * (1 + s) else l + s - l * s)"
  define p where "p = 2 * l - q"
  have pq: "0 \<le> p \<and> p \<le> q \<and> q \<le> 1"
    using hsl_pq_bounds [OF assms(1-4)] by (simp add: p_def q_def)
  have r: "p \<le> hue2rgb p q (h + 1 / 3) \<and> hue2rgb p q (h + 1 / 3) \<le> q"
    using pq assms(5) by (intro hue2rgb_between) simp_all
  have g: "p \<le> hue2rgb p q h \<and> hue2rgb p q h \<le> q"
    using pq assms(5) by (intro hue2rgb_between) simp_all
  have b: "p \<le> hue2rgb p q (h - 1 / 3) \<and> hue2rgb p q (h - 1 / 3) \<le> q"
    using pq assms(5) by (intro hue2rgb_between) simp_all
  have "hslToRgb h s l = (hue2rgb p q (h + 1 / 3), hue2rgb p q h, hue2rgb p q (h - 1 / 3))"
    using False by (simp add: hslToRgb_def p_def q_def Let_def)
  then show ?thesis using r g b pq by (simp add: unit_interval_def)
qed

text \<open>
  The hue that \<^verbatim>\<open>splat\<close> passes is the fractional part of the time in seconds, so the
  dye colour of every splat is a valid colour (\<^verbatim>\<open>Date.now()\<close> is not negative).
\<close>

lemma splat_colour_valid:
  assumes "0 \<le> now"
  shows "valid_rgb (hslToRgb (js_rem1 (real_of_int now * 0.001)) 0.8 0.5)"
proof -
  define x where "x = real_of_int now * 0.001"
  have "0 \<le> x" using assms by (simp add: x_def)
  then have "js_rem1 x = x - of_int \<lfloor>x\<rfloor>" by (simp add: js_rem1_def)
  moreover have "of_int \<lfloor>x\<rfloor> \<le> x" by (rule of_int_floor_le)
  ultimately have "0 \<le> js_rem1 x" by simp
  then have "valid_rgb (hslToRgb (js_rem1 x) 0.8 0.5)"
    by (intro hslToRgb_bounds) simp_all
  then show ?thesis by (simp only: x_def)
qed

text \<open>
  C10 (as amended). For every saturation and lightness in the unit interval and every
  hue \<open>h\<close> that is at least \<open>-2/3\<close>, in particular for every hue in \<open>[0, 1)\<close> as
  \<^verbatim>\<open>splat\<close> passes, each of the three components returned by \<^verbatim>\<open>hslToRgb\<close> lies in
  the unit interval.
\<close>

theorem hslToRgb_valid:
  assumes "0 \<le> s" "s \<le> 1" "0 \<le> l" "l \<le> 1" "- 2 / 3 \<le> h"
  shows "valid_rgb (hslToRgb h s l)"
  using assms by (rule hslToRgb_bounds)

theorem hslToRgb_valid_witness:
  "valid_rgb (hslToRgb (1 / 4) (4 / 5) (1 / 2))
   \<and> hslToRgb (1 / 4) (4 / 5) (1 / 2) = (1 / 2, 9 / 10, 1 / 10)"
proof -
  have "valid_rgb (hslToRgb (1 / 4) (4 / 5) (1 / 2))"
    using hslToRgb_valid [of "4 / 5" "1 / 2" "1 / 4"] by simp
  moreover have "hslToRgb (1 / 4) (4 / 5) (1 / 2) = (1 / 2, 9 / 10, 1 / 10)"
    by (simp add: hslToRgb_def hue2rgb_def Let_def)
  ultimately show ?thesis by simp
qed

text \<open>
  C10 as stated fails for a hue below \<open>-2/3\<close>: \<^verbatim>\<open>hue2rgb\<close> adds one to a negative
  \<^verbatim>\<open>t\<close> only once, and at hue \<open>-1\<close>, full saturation and lightness one half the blue
  component is \<open>-2\<close>.
\<close>

theorem hslToRgb_counterexample:
  "hslToRgb (- 1) 1 (1 / 2) = (1, 0, - 2) \<and> \<not> valid_rgb (hslToRgb (- 1) 1 (1 / 2))"
  by (simp add: hslToRgb_def hue2rgb_def Let_def unit_interval_def)

section \<open>Sampling at cell centres\<close>


lemma texture2D_taps:
  assumes "0 < img_width img" "0 < img_height img"
    and "axis_taps (wrap_s img) (img_width img) (fst uv) = (il, ih, a)"
    and "axis_taps (wrap_t img) (img_height img) (snd uv) = (jl, jh, b)"
  shows "texture2D img uv =
     vec4_add (vec4_scale ((1 - a) * (1 - b)) (texel img il jl))
       (vec4_add (vec4_scale (a * (1 - b)) (texel img ih jl))
         (vec4_add (vec4_scale ((1 - a) * b) (texel img il jh))
           (vec4_add (vec4_scale (a * b) (texel img ih jh)) (0, 0, 0, 0))))"
  using assms by (simp add: texture2D_def linear_taps_def)

lemma axis_taps_at_grid:
  assumes "u * real n - 1 / 2 = of_int c"
  shows "axis_taps m n u = (wrap_index m n c, wrap_index m n (c + 1), 0)"
  using assms by (simp add: axis_taps_def)

lemma vec4_unit_sum:
  "vec4_add (vec4_scale ((1 - 0) * (1 - 0)) v) (vec4_add (vec4_scale (0 * (1 - 0)) v1)
     (vec4_add (vec4_scale ((1 - 0) * 0) v2) (vec4_add (vec4_scale (0 * 0) v3) (0, 0, 0, 0)))) = v"
  by (cases v; cases v1; cases v2; cases v3) simp

lemma texture2D_at_grid:
  assumes "0 < img_width img" "0 < img_height img"
    and "fst uv * real (img_width img) - 1 / 2 = of_int a"
    and "snd uv * real (img_height img) - 1 / 2 = of_int b"
  shows "texture2D img uv =
     texel img (wrap_index (wrap_s img) (img_width img) a)
               (wrap_index (wrap_t img) (img_height img) b)"
  by (simp only: texture2D_taps [OF assms(1,2) axis_taps_at_grid [OF assms(3)]
        axis_taps_at_grid [OF assms(4)]] vec4_unit_sum)

lemma clamp_before: "i < n \<Longrightarrow> wrap_index CLAMP_TO_EDGE n (int i - 1) = before i"
  by (auto simp: wrap_index_def before_def)

lemma clamp_after: "i < n \<Longrightarrow> wrap_index CLAMP_TO_EDGE n (int i + 1) = after n i"
  by (auto simp: wrap_index_def after_def)

lemma clamp_same: "i < n \<Longrightarrow> wrap_index CLAMP_TO_EDGE n (int i) = i"
  by (auto simp: wrap_index_def)

lemma sample_centre:
  assumes "clamped n img" "i < n" "j < n"
  shows "texture2D img (pixel_uv n n i j) = texel img i j"
proof -
  have n: "0 < n" using assms(2) by simp
  have "texture2D img (pixel_uv n n i j) =
     texel img (wrap_index (wrap_s img) (img_width img) (int i))
               (wrap_index (wrap_t img) (img_height img) (int j))"
    using assms n by (intro texture2D_at_grid) (simp_all add: clamped_def pixel_uv_def)
  then show ?thesis using assms by (simp add: clamped_def clamp_same)
qed

lemma sample_left:
  assumes "clamped n img" "i < n" "j < n"
  shows "texture2D img (fst (pixel_uv n n i j) - 1 / real n, snd (pixel_uv n n i j))
         = texel img (before i) j"
proof -
  have n: "0 < n" using assms(2) by simp
  have "texture2D img (fst (pixel_uv n n i j) - 1 / real n, snd (pixel_uv n n i j)) =
     texel img (wrap_index (wrap_s img) (img_width img) (int i - 1))
               (wrap_index (wrap_t img) (img_height img) (int j))"
    using assms n by (intro texture2D_at_grid) (simp_all add: clamped_def pixel_uv_def field_simps)
  then show ?thesis using assms by (simp add: clamped_def clamp_same clamp_before)
qed

lemma sample_right:
  assumes "clamped n img" "i < n" "j < n"
  shows "texture2D img (fst (pixel_uv n n i j) + 1 / real n, snd (pixel_uv n n i j))
         = texel img (after n i) j"
proof -
  have n: "0 < n" using assms(2) by simp
  have "texture2D img (fst (pixel_uv n n i j) + 1 / real n, snd (pixel_uv n n i j)) =
     texel img (wrap_index (wrap_s img) (img_width img) (int i + 1))
               (wrap_index (wrap_t img) (img_height img) (int j))"
    using assms n by (intro texture2D_at_grid) (simp_all add: clamped_def pixel_uv_def field_simps)
  then show ?thesis using assms by (simp add: clamped_def clamp_same clamp_after)
qed

lemma sample_bottom:
  assumes "clamped n img" "i < n" "j < n"
  shows "texture2D img (fst (pixel_uv n n i j), snd (pixel_uv n n i j) - 1 / real n)
         = texel img i (before j)"
proof -
  have n: "0 < n" using assms(2) by simp
  have "texture2D img (fst (pixel_uv n n i j), snd (pixel_uv n n i j) - 1 / real n) =
     texel img (wrap_index (wrap_s img) (img_width img) (int i))
               (wrap_index (wrap_t img) (img_height img) (int j - 1))"
    using assms n by (intro texture2D_at_grid) (simp_all add: clamped_def pixel_uv_def field_simps)
  then show ?thesis using assms by (simp add: clamped_def clamp_same clamp_before)
qed

lemma sample_top:
  assumes "clamped n img" "i < n" "j < n"
  shows "texture2D img (fst (pixel_uv n n i j), snd (pixel_uv n n i j) + 1 / real n)
         = texel img i (after n j)"
proof -
  have n: "0 < n" using assms(2) by simp
  have "texture2D img (fst (pixel_uv n n i j), snd (pixel_uv n n i j) + 1 / real n) =
     texel img (wrap_index (wrap_s img) (img_width img) (int i))
               (wrap_index (wrap_t img) (img_height img) (int j + 1))"
    using assms n by (intro texture2D_at_grid) (simp_all add: clamped_def pixel_uv_def field_simps)
  then show ?thesis using assms by (simp add: clamped_def clamp_same clamp_after)
qed

section \<open>Effect of the stages on the state\<close>

lemma well_formed_init_state: "well_formed (init_state w)"
  by (simp add: init_state_def createTextures_def createDoubleFBO_def createFBO_def globals_def
      well_formed_def fields_def fbo_ok_def clamped_def Let_def bindTexture_def)

lemma blit_fields:
  "textures_velocity (blit p u sh t s) = textures_velocity s"
  "textures_pressure (blit p u sh t s) = textures_pressure s"
  "textures_divergence (blit p u sh t s) = textures_divergence s"
  "textures_curl (blit p u sh t s) = textures_curl s"
  "textures_dye (blit p u sh t s) = textures_dye s"
  by (simp_all add: blit_def Let_def split: option.splits)

lemma clamped_blit:
  "clamped n (gl_tex (blit p u sh t s) k) = clamped n (gl_tex s k)"
  by (cases t) (simp_all add: blit_def Let_def clamped_def)

lemma well_formed_blit: "well_formed (blit p u sh t s) = well_formed s"
  by (simp add: well_formed_def fbo_ok_def fields_def clamped_blit blit_fields)

lemma well_formed_bind:
  "well_formed (bindTexture t s) = well_formed s"
  "well_formed (activeTexture k s) = well_formed s"
  by (simp_all add: well_formed_def fields_def fbo_ok_def bindTexture_def activeTexture_def)

lemma well_formed_swap:
  "well_formed (swap_velocity s) = well_formed s"
  "well_formed (swap_pressure s) = well_formed s"
  "well_formed (swap_dye s) = well_formed s"
  by (auto simp: well_formed_def fields_def fbo_ok_def swap_velocity_def swap_pressure_def
      swap_dye_def swap_def)

lemmas well_formed_gl = well_formed_blit well_formed_bind well_formed_swap

lemma well_formed_stage:
  "well_formed (splat x y dx dy now s) = well_formed s"
  "well_formed (advectVelocity dt s) = well_formed s"
  "well_formed (advectDye dt s) = well_formed s"
  "well_formed (computeDivergence s) = well_formed s"
  "well_formed (clearPressure s) = well_formed s"
  "well_formed (bindDivergence s) = well_formed s"
  "well_formed (pressureIteration s) = well_formed s"
  "well_formed (gradientSubtraction s) = well_formed s"
  "well_formed (computeCurl s) = well_formed s"
  by (simp_all add: splat_def advectVelocity_def advectDye_def computeDivergence_def
      clearPressure_def bindDivergence_def pressureIteration_def gradientSubtraction_def
      computeCurl_def Let_def well_formed_gl)


lemmas gl_defs = blit_def bindTexture_def activeTexture_def swap_velocity_def
  swap_pressure_def swap_dye_def swap_def Let_def

lemma well_formedD:
  assumes "well_formed s"
  shows "distinct (map texture (fields s))"
    and "fbo_ok s SIM_RESOLUTION (read (textures_velocity s))"
    and "fbo_ok s SIM_RESOLUTION (write (textures_velocity s))"
    and "fbo_ok s SIM_RESOLUTION (read (textures_pressure s))"
    and "fbo_ok s SIM_RESOLUTION (write (textures_pressure s))"
    and "fbo_ok s SIM_RESOLUTION (textures_divergence s)"
    and "fbo_ok s SIM_RESOLUTION (textures_curl s)"
    and "fbo_ok s DYE_RESOLUTION (read (textures_dye s))"
    and "fbo_ok s DYE_RESOLUTION (write (textures_dye s))"
  using assms by (simp_all add: well_formed_def)

lemma pressureIteration_cell:
  assumes "well_formed s" and "gl_unit s TEXTURE1 = texture (textures_divergence s)"
    and "i < SIM_RESOLUTION" and "j < SIM_RESOLUTION"
  shows "pressure_at (pressureIteration s) i j =
     (pressure_at s (before i) j + pressure_at s (after SIM_RESOLUTION i) j
      + pressure_at s i (before j) + pressure_at s i (after SIM_RESOLUTION j)
      - divergence_at s i j) * 0.25"
proof -
  note wf = well_formedD [OF assms(1)]
  have w: "width (write (textures_pressure s)) = SIM_RESOLUTION"
       "height (write (textures_pressure s)) = SIM_RESOLUTION"
    using wf(5) by (simp_all add: fbo_ok_def)
  have p: "clamped SIM_RESOLUTION (gl_tex s (texture (read (textures_pressure s))))"
    using wf(4) by (simp add: fbo_ok_def)
  have d: "clamped SIM_RESOLUTION (gl_tex s (texture (textures_divergence s)))"
    using wf(6) by (simp add: fbo_ok_def)
  show ?thesis
    using assms(2-4) w
    by (simp add: pressure_at_def divergence_at_def pressureIteration_def gl_defs
        write_pixels_def pressureShader_def simTexelSize_def
        sample_left [OF p] sample_right [OF p] sample_bottom [OF p] sample_top [OF p]
        sample_centre [OF d])
qed


subsection \<open>What each block of the step changes\<close>

lemma swap_swap: "swap (swap d) = d"
  by (simp add: swap_def)

lemma swap_sel: "read (swap d) = write d" "write (swap d) = read d"
  by (simp_all add: swap_def)

lemma splat_state:
  "textures_velocity (splat x y dx dy now s) = swap (textures_velocity s)"
  "textures_dye (splat x y dx dy now s) = swap (textures_dye s)"
  "textures_pressure (splat x y dx dy now s) = textures_pressure s"
  "textures_divergence (splat x y dx dy now s) = textures_divergence s"
  "textures_curl (splat x y dx dy now s) = textures_curl s"
  "simParams_pressureIterations (splat x y dx dy now s) = simParams_pressureIterations s"
  "gl_draws (splat x y dx dy now s) = gl_draws s @
     [\<lparr>draw_program = Splat, draw_inputs = [texture (read (textures_velocity s))],
       draw_target = Some (texture (write (textures_velocity s)))\<rparr>,
      \<lparr>draw_program = Splat, draw_inputs = [texture (read (textures_dye s))],
       draw_target = Some (texture (write (textures_dye s)))\<rparr>]"
  by (simp_all add: splat_def gl_defs)

lemma advectVelocity_state:
  "textures_velocity (advectVelocity dt s) = swap (textures_velocity s)"
  "textures_dye (advectVelocity dt s) = textures_dye s"
  "textures_pressure (advectVelocity dt s) = textures_pressure s"
  "textures_divergence (advectVelocity dt s) = textures_divergence s"
  "textures_curl (advectVelocity dt s) = textures_curl s"
  "simParams_pressureIterations (advectVelocity dt s) = simParams_pressureIterations s"
  "gl_unit (advectVelocity dt s) TEXTURE0 = texture (read (textures_velocity s))"
  "gl_draws (advectVelocity dt s) = gl_draws s @
     [\<lparr>draw_program = Advection,
       draw_inputs = [texture (read (textures_velocity s)), texture (read (textures_velocity s))],
       draw_target = Some (texture (write (textures_velocity s)))\<rparr>]"
  by (simp_all add: advectVelocity_def gl_defs)

lemma advectDye_state:
  "textures_velocity (advectDye dt s) = textures_velocity s"
  "textures_dye (advectDye dt s) = swap (textures_dye s)"
  "textures_pressure (advectDye dt s) = textures_pressure s"
  "textures_divergence (advectDye dt s) = textures_divergence s"
  "textures_curl (advectDye dt s) = textures_curl s"
  "simParams_pressureIterations (advectDye dt s) = simParams_pressureIterations s"
  "gl_draws (advectDye dt s) = gl_draws s @
     [\<lparr>draw_program = Advection,
       draw_inputs = [gl_unit s TEXTURE0, texture (read (textures_dye s))],
       draw_target = Some (texture (write (textures_dye s)))\<rparr>]"
  by (simp_all add: advectDye_def gl_defs)

lemma computeDivergence_state:
  "textures_velocity (computeDivergence s) = textures_velocity s"
  "textures_dye (computeDivergence s) = textures_dye s"
  "textures_pressure (computeDivergence s) = textures_pressure s"
  "textures_divergence (computeDivergence s) = textures_divergence s"
  "textures_curl (computeDivergence s) = textures_curl s"
  "simParams_pressureIterations (computeDivergence s) = simParams_pressureIterations s"
  "gl_draws (computeDivergence s) = gl_draws s @
     [\<lparr>draw_program = Divergence, draw_inputs = [texture (read (textures_velocity s))],
       draw_target = Some (texture (textures_divergence s))\<rparr>]"
  by (simp_all add: computeDivergence_def gl_defs)

lemma clearPressure_state:
  "textures_velocity (clearPressure s) = textures_velocity s"
  "textures_dye (clearPressure s) = textures_dye s"
  "textures_pressure (clearPressure s) = textures_pressure s"
  "textures_divergence (clearPressure s) = textures_divergence s"
  "textures_curl (clearPressure s) = textures_curl s"
  "simParams_pressureIterations (clearPressure s) = simParams_pressureIterations s"
  "gl_draws (clearPressure s) = gl_draws s @
     [\<lparr>draw_program = Clear, draw_inputs = [],
       draw_target = Some (texture (read (textures_pressure s)))\<rparr>]"
  by (simp_all add: clearPressure_def gl_defs)

lemma bindDivergence_state:
  "textures_velocity (bindDivergence s) = textures_velocity s"
  "textures_dye (bindDivergence s) = textures_dye s"
  "textures_pressure (bindDivergence s) = textures_pressure s"
  "textures_divergence (bindDivergence s) = textures_divergence s"
  "textures_curl (bindDivergence s) = textures_curl s"
  "simParams_pressureIterations (bindDivergence s) = simParams_pressureIterations s"
  "gl_unit (bindDivergence s) TEXTURE1 = texture (textures_divergence s)"
  "gl_draws (bindDivergence s) = gl_draws s"
  "gl_tex (bindDivergence s) = gl_tex s"
  by (simp_all add: bindDivergence_def gl_defs)

lemma pressureIteration_state:
  "textures_velocity (pressureIteration s) = textures_velocity s"
  "textures_dye (pressureIteration s) = textures_dye s"
  "textures_pressure (pressureIteration s) = swap (textures_pressure s)"
  "textures_divergence (pressureIteration s) = textures_divergence s"
  "textures_curl (pressureIteration s) = textures_curl s"
  "simParams_pressureIterations (pressureIteration s) = simParams_pressureIterations s"
  "gl_unit (pressureIteration s) TEXTURE1 = gl_unit s TEXTURE1"
  "gl_draws (pressureIteration s) = gl_draws s @
     [\<lparr>draw_program = Pressure,
       draw_inputs = [texture (read (textures_pressure s)), gl_unit s TEXTURE1],
       draw_target = Some (texture (write (textures_pressure s)))\<rparr>]"
  by (simp_all add: pressureIteration_def gl_defs)

lemma gradientSubtraction_state:
  "textures_velocity (gradientSubtraction s) = swap (textures_velocity s)"
  "textures_dye (gradientSubtraction s) = textures_dye s"
  "textures_pressure (gradientSubtraction s) = textures_pressure s"
  "textures_divergence (gradientSubtraction s) = textures_divergence s"
  "textures_curl (gradientSubtraction s) = textures_curl s"
  "simParams_pressureIterations (gradientSubtraction s) = simParams_pressureIterations s"
  "gl_draws (gradientSubtraction s) = gl_draws s @
     [\<lparr>draw_program = GradientSubtract,
       draw_inputs = [texture (read (textures_pressure s)), texture (read (textures_velocity s))],
       draw_target = Some (texture (write (textures_velocity s)))\<rparr>]"
  by (simp_all add: gradientSubtraction_def gl_defs)

lemma computeCurl_state:
  "textures_velocity (computeCurl s) = textures_velocity s"
  "textures_dye (computeCurl s) = textures_dye s"
  "textures_pressure (computeCurl s) = textures_pressure s"
  "textures_divergence (computeCurl s) = textures_divergence s"
  "textures_curl (computeCurl s) = textures_curl s"
  "simParams_pressureIterations (computeCurl s) = simParams_pressureIterations s"
  "gl_draws (computeCurl s) = gl_draws s @
     [\<lparr>draw_program = Curl, draw_inputs = [texture (read (textures_velocity s))],
       draw_target = Some (texture (textures_curl s))\<rparr>]"
  by (simp_all add: computeCurl_def gl_defs)

subsection \<open>The loop of the pressure solve\<close>

text \<open>The number of times the loop body runs for a value of the iteration count.\<close>

lemma pressureLoop_funpow:
  "pressureLoop i s =
     (pressureIteration ^^ (case simParams_pressureIterations s of
                              None \<Rightarrow> 0 | Some k \<Rightarrow> nat (k - i))) s"
proof (induction i s rule: pressureLoop.induct)
  case (1 i s)
  show ?case
  proof (cases "js_less i (simParams_pressureIterations s)")
    case True
    then obtain k where k: "simParams_pressureIterations s = Some k" "i < k"
      by (auto simp: js_less_def split: option.splits)
    have "nat (k - i) = Suc (nat (k - (i + 1)))" using k(2) by simp
    with True k "1.IH" show ?thesis
      by (subst pressureLoop.simps) (simp add: pressureIteration_state funpow_swap1)
  next
    case False
    then have "(case simParams_pressureIterations s of None \<Rightarrow> 0 | Some k \<Rightarrow> nat (k - i)) = 0"
      by (auto simp: js_less_def split: option.splits)
    with False show ?thesis by (subst pressureLoop.simps) simp
  qed
qed

lemma iterate_state:
  "textures_pressure ((pressureIteration ^^ m) s) =
     (if even m then textures_pressure s else swap (textures_pressure s))"
  "textures_velocity ((pressureIteration ^^ m) s) = textures_velocity s"
  "textures_dye ((pressureIteration ^^ m) s) = textures_dye s"
  "textures_divergence ((pressureIteration ^^ m) s) = textures_divergence s"
  "textures_curl ((pressureIteration ^^ m) s) = textures_curl s"
  "simParams_pressureIterations ((pressureIteration ^^ m) s) = simParams_pressureIterations s"
  "gl_unit ((pressureIteration ^^ m) s) TEXTURE1 = gl_unit s TEXTURE1"
  "well_formed ((pressureIteration ^^ m) s) = well_formed s"
  by (induction m) (simp_all add: pressureIteration_state swap_swap well_formed_stage)

lemma iterate_draws:
  "gl_draws ((pressureIteration ^^ m) s) = gl_draws s @
     map (\<lambda>k. \<lparr>draw_program = Pressure,
                 draw_inputs = [texture ((if even k then read else write) (textures_pressure s)),
                                gl_unit s TEXTURE1],
                 draw_target = Some (texture ((if even k then write else read)
                                                (textures_pressure s)))\<rparr>) [0..<m]"
  by (induction m) (simp_all add: pressureIteration_state iterate_state swap_sel)

subsection \<open>Textures that a block leaves alone\<close>

lemma gl_tex_frame:
  "t \<noteq> texture (write (textures_pressure s)) \<Longrightarrow> gl_tex (pressureIteration s) t = gl_tex s t"
  "t \<noteq> texture (write (textures_velocity s)) \<Longrightarrow> gl_tex (advectVelocity dt s) t = gl_tex s t"
  "t \<noteq> texture (write (textures_dye s)) \<Longrightarrow> gl_tex (advectDye dt s) t = gl_tex s t"
  "t \<noteq> texture (textures_divergence s) \<Longrightarrow> gl_tex (computeDivergence s) t = gl_tex s t"
  "t \<noteq> texture (read (textures_pressure s)) \<Longrightarrow> gl_tex (clearPressure s) t = gl_tex s t"
  "t \<noteq> texture (write (textures_velocity s)) \<Longrightarrow> gl_tex (gradientSubtraction s) t = gl_tex s t"
  "t \<noteq> texture (textures_curl s) \<Longrightarrow> gl_tex (computeCurl s) t = gl_tex s t"
  by (simp_all add: pressureIteration_def advectVelocity_def advectDye_def computeDivergence_def
      clearPressure_def gradientSubtraction_def computeCurl_def gl_defs)

lemma well_formed_distinct:
  assumes "well_formed s"
  shows "texture (read (textures_pressure s)) \<noteq> texture (write (textures_pressure s))"
    and "texture (textures_divergence s) \<noteq> texture (write (textures_pressure s))"
    and "texture (textures_divergence s) \<noteq> texture (read (textures_pressure s))"
    and "texture (read (textures_velocity s)) \<noteq> texture (write (textures_velocity s))"
    and "texture (read (textures_velocity s)) \<noteq> texture (textures_divergence s)"
    and "texture (read (textures_velocity s)) \<noteq> texture (textures_curl s)"
    and "texture (read (textures_velocity s)) \<noteq> texture (read (textures_pressure s))"
    and "texture (read (textures_velocity s)) \<noteq> texture (write (textures_pressure s))"
    and "texture (write (textures_velocity s)) \<noteq> texture (read (textures_pressure s))"
    and "texture (write (textures_velocity s)) \<noteq> texture (write (textures_pressure s))"
    and "texture (write (textures_velocity s)) \<noteq> texture (textures_divergence s)"
    and "texture (write (textures_velocity s)) \<noteq> texture (textures_curl s)"
    and "texture (read (textures_pressure s)) \<noteq> texture (textures_curl s)"
    and "texture (write (textures_pressure s)) \<noteq> texture (textures_curl s)"
    and "texture (textures_divergence s) \<noteq> texture (textures_curl s)"
    and "texture (read (textures_dye s)) \<noteq> texture (write (textures_dye s))"
  using assms by (auto simp: well_formed_def fields_def)

lemma iterate_gl_tex:
  assumes "t \<noteq> texture (read (textures_pressure s))"
    and "t \<noteq> texture (write (textures_pressure s))"
  shows "gl_tex ((pressureIteration ^^ m) s) t = gl_tex s t"
  using assms by (induction m) (simp_all add: gl_tex_frame iterate_state swap_sel)

lemma iterate_divergence_at:
  assumes "well_formed s"
  shows "divergence_at ((pressureIteration ^^ m) s) = divergence_at s"
  using well_formed_distinct(2,3) [OF assms]
  by (intro ext) (simp add: divergence_at_def iterate_state iterate_gl_tex)

subsection \<open>The state after \<^verbatim>\<open>createTextures\<close>\<close>

lemma init_state_simps:
  "textures_velocity (init_state w) =
     \<lparr>read = \<lparr>texture = 1, width = SIM_RESOLUTION, height = SIM_RESOLUTION\<rparr>,
      write = \<lparr>texture = 2, width = SIM_RESOLUTION, height = SIM_RESOLUTION\<rparr>\<rparr>"
  "textures_pressure (init_state w) =
     \<lparr>read = \<lparr>texture = 3, width = SIM_RESOLUTION, height = SIM_RESOLUTION\<rparr>,
      write = \<lparr>texture = 4, width = SIM_RESOLUTION, height = SIM_RESOLUTION\<rparr>\<rparr>"
  "textures_divergence (init_state w) =
     \<lparr>texture = 5, width = SIM_RESOLUTION, height = SIM_RESOLUTION\<rparr>"
  "textures_curl (init_state w) =
     \<lparr>texture = 6, width = SIM_RESOLUTION, height = SIM_RESOLUTION\<rparr>"
  "textures_dye (init_state w) =
     \<lparr>read = \<lparr>texture = 7, width = DYE_RESOLUTION, height = DYE_RESOLUTION\<rparr>,
      write = \<lparr>texture = 8, width = DYE_RESOLUTION, height = DYE_RESOLUTION\<rparr>\<rparr>"
  "simParams_pressureIterations (init_state w) = Some 20"
  "isPaused (init_state w) = False"
  "isMouseDown (init_state w) = False"
  "simParams_displayMode (init_state w) = ''dye''"
  "gl_draws (init_state w) = []"
  by (simp_all add: init_state_def createTextures_def createDoubleFBO_def createFBO_def
      globals_def Let_def bindTexture_def)

lemma clamped_texel_update:
  "clamped n (((gl_tex s)(t := (gl_tex s t)\<lparr>texel := f\<rparr>)) k) = clamped n (gl_tex s k)"
  by (simp add: clamped_def)

lemma well_formed_texel_update:
  "well_formed (s\<lparr>gl_tex := (gl_tex s)(t := (gl_tex s t)\<lparr>texel := f\<rparr>)\<rparr>) = well_formed s"
  by (simp add: well_formed_def fields_def fbo_ok_def clamped_texel_update del: fun_upd_apply)

lemma init_state_texel:
  "texel (gl_tex (init_state w) t) i j = (0, 0, 0, 0)"
  by (simp add: init_state_def createTextures_def createDoubleFBO_def createFBO_def
      globals_def Let_def bindTexture_def no_texture_def)

text \<open>
  C3. The pressure solve binds the divergence texture and then runs the loop body
  exactly as many times as the configured iteration count \<open>n\<close> says. With \<open>it m\<close> the
  state after \<open>m\<close> runs of the body: run \<open>k + 1\<close> writes, for every cell, a quarter of
  (left + right + bottom + top pressure - divergence), all read from the read buffer of
  \<open>it k\<close> with neighbours clamped at the edge and from the divergence of the step; it
  draws into the write buffer, leaves the read buffer as it was, and swaps the two.
\<close>

theorem pressureSolve_jacobi:
  assumes "well_formed s" and "simParams_pressureIterations s = Some (int n)"
    and "k < n" and "i < SIM_RESOLUTION" and "j < SIM_RESOLUTION"
  defines "it \<equiv> \<lambda>m. (pressureIteration ^^ m) (bindDivergence s)"
  shows "pressureSolve s = it n
    \<and> pressure_at (it (Suc k)) i j =
        (pressure_at (it k) (before i) j + pressure_at (it k) (after SIM_RESOLUTION i) j
         + pressure_at (it k) i (before j) + pressure_at (it k) i (after SIM_RESOLUTION j)
         - divergence_at s i j) / 4
    \<and> textures_pressure (it (Suc k)) = swap (textures_pressure (it k))
    \<and> gl_tex (it (Suc k)) (texture (read (textures_pressure (it k))))
        = gl_tex (it k) (texture (read (textures_pressure (it k))))
    \<and> last (gl_draws (it (Suc k))) =
        \<lparr>draw_program = Pressure,
         draw_inputs = [texture (read (textures_pressure (it k))),
                        texture (textures_divergence s)],
         draw_target = Some (texture (write (textures_pressure (it k))))\<rparr>"
proof -
  have wf: "well_formed (it k)"
    using assms(1) by (simp add: it_def iterate_state well_formed_stage)
  have u: "gl_unit (it k) TEXTURE1 = texture (textures_divergence (it k))"
    by (simp add: it_def iterate_state bindDivergence_state)
  have d: "divergence_at (it k) = divergence_at s"
    using assms(1)
    by (simp add: it_def iterate_divergence_at well_formed_stage)
       (simp add: divergence_at_def bindDivergence_state fun_eq_iff)
  have step: "it (Suc k) = pressureIteration (it k)"
    by (simp add: it_def)
  have "pressureSolve s = it n"
    using assms(2)
    by (simp add: pressureSolve_def pressureLoop_funpow bindDivergence_state it_def)
  moreover have "pressure_at (it (Suc k)) i j =
        (pressure_at (it k) (before i) j + pressure_at (it k) (after SIM_RESOLUTION i) j
         + pressure_at (it k) i (before j) + pressure_at (it k) i (after SIM_RESOLUTION j)
         - divergence_at s i j) / 4"
    using pressureIteration_cell [OF wf u assms(4,5)] by (simp add: step d)
  moreover have "textures_pressure (it (Suc k)) = swap (textures_pressure (it k))"
    by (simp add: step pressureIteration_state)
  moreover have "gl_tex (it (Suc k)) (texture (read (textures_pressure (it k))))
        = gl_tex (it k) (texture (read (textures_pressure (it k))))"
    using well_formed_distinct(1) [OF wf] by (simp add: step gl_tex_frame)
  moreover have "last (gl_draws (it (Suc k))) =
        \<lparr>draw_program = Pressure,
         draw_inputs = [texture (read (textures_pressure (it k))),
                        texture (textures_divergence s)],
         draw_target = Some (texture (write (textures_pressure (it k))))\<rparr>"
    using u by (simp add: step pressureIteration_state)
               (simp add: it_def iterate_state bindDivergence_state)
  ultimately show ?thesis by simp
qed

theorem pressureSolve_jacobi_witness:
  "well_formed ((init_state 800)\<lparr>gl_tex := (gl_tex (init_state 800))
       (5 := (gl_tex (init_state 800) 5)\<lparr>texel := (\<lambda>i j. (4, 0, 0, 1))\<rparr>)\<rparr>)
   \<and> simParams_pressureIterations ((init_state 800)\<lparr>gl_tex := (gl_tex (init_state 800))
       (5 := (gl_tex (init_state 800) 5)\<lparr>texel := (\<lambda>i j. (4, 0, 0, 1))\<rparr>)\<rparr>) = Some (int 20)
   \<and> pressureSolve ((init_state 800)\<lparr>gl_tex := (gl_tex (init_state 800))
       (5 := (gl_tex (init_state 800) 5)\<lparr>texel := (\<lambda>i j. (4, 0, 0, 1))\<rparr>)\<rparr>)
       = (pressureIteration ^^ 20) (bindDivergence ((init_state 800)\<lparr>gl_tex :=
           (gl_tex (init_state 800))
           (5 := (gl_tex (init_state 800) 5)\<lparr>texel := (\<lambda>i j. (4, 0, 0, 1))\<rparr>)\<rparr>))
   \<and> pressure_at (pressureIteration (bindDivergence ((init_state 800)\<lparr>gl_tex :=
           (gl_tex (init_state 800))
           (5 := (gl_tex (init_state 800) 5)\<lparr>texel := (\<lambda>i j. (4, 0, 0, 1))\<rparr>)\<rparr>))) 0 0 = - 1
   \<and> pressure_at (pressureIteration (pressureIteration (bindDivergence ((init_state 800)
           \<lparr>gl_tex := (gl_tex (init_state 800))
           (5 := (gl_tex (init_state 800) 5)\<lparr>texel := (\<lambda>i j. (4, 0, 0, 1))\<rparr>)\<rparr>)))) 0 0 = - 2"
proof -
  define s where "s = (init_state 800)\<lparr>gl_tex := (gl_tex (init_state 800))
       (5 := (gl_tex (init_state 800) 5)\<lparr>texel := (\<lambda>i j. (4, 0, 0, 1))\<rparr>)\<rparr>"
  have wf: "well_formed s"
    using well_formed_init_state [of 800] by (simp only: s_def well_formed_texel_update)
  have n: "simParams_pressureIterations s = Some (int 20)"
    by (simp add: s_def init_state_simps)
  have z: "pressure_at (bindDivergence s) a b = 0" for a b
    by (simp add: pressure_at_def bindDivergence_state)
       (simp add: s_def init_state_simps init_state_texel)
  have d: "divergence_at s a b = 4" for a b
    by (simp add: divergence_at_def s_def init_state_simps)
  have r: "(0::nat) < 20" "(1::nat) < 20" "0 < SIM_RESOLUTION"
    by (simp_all add: SIM_RESOLUTION_def)
  have i0: "(pressureIteration ^^ 0) (bindDivergence s) = bindDivergence s"
    and i1: "(pressureIteration ^^ Suc 0) (bindDivergence s) = pressureIteration (bindDivergence s)"
    and i1': "(pressureIteration ^^ 1) (bindDivergence s) = pressureIteration (bindDivergence s)"
    and i2: "(pressureIteration ^^ Suc 1) (bindDivergence s)
        = pressureIteration (pressureIteration (bindDivergence s))"
    by simp_all
  have 1: "pressureSolve s = (pressureIteration ^^ 20) (bindDivergence s)"
    using pressureSolve_jacobi [OF wf n r(1) r(3) r(3)] by (rule conjunct1)
  have first: "pressure_at (pressureIteration (bindDivergence s)) a b = - 1"
    if "a < SIM_RESOLUTION" "b < SIM_RESOLUTION" for a b
    using conjunct1 [OF conjunct2 [OF pressureSolve_jacobi [OF wf n r(1) that]]]
    by (simp only: i0 i1 z d) simp
  have e: "before 0 < SIM_RESOLUTION" "after SIM_RESOLUTION 0 < SIM_RESOLUTION"
    by (simp_all add: before_def after_def SIM_RESOLUTION_def)
  have 3: "pressure_at (pressureIteration (pressureIteration (bindDivergence s))) 0 0 = - 2"
    using conjunct1 [OF conjunct2 [OF pressureSolve_jacobi [OF wf n r(2) r(3) r(3)]]]
    by (simp only: i1' i2 d first [OF e(1) r(3)] first [OF e(2) r(3)] first [OF r(3) e(1)]
          first [OF r(3) e(2)]) simp
  show ?thesis
    using wf n 1 first [OF r(3) r(3)] 3 unfolding s_def by (intro conjI)
qed

section \<open>Sampling outside the unit square\<close>














lemma createFBO_clamped:
  "clamped n (gl_tex (snd (createFBO n n s)) (texture (fst (createFBO n n s))))"
  by (simp add: createFBO_def Let_def clamped_def bindTexture_def)



section \<open>Gradient subtraction\<close>

lemma gradientSubtraction_cell:
  assumes "well_formed s" and "i < SIM_RESOLUTION" and "j < SIM_RESOLUTION"
  shows "velocity_at (gradientSubtraction s) i j =
     (fst (velocity_at s i j)
        - (pressure_at s (after SIM_RESOLUTION i) j - pressure_at s (before i) j) * 0.5,
      snd (velocity_at s i j)
        - (pressure_at s i (after SIM_RESOLUTION j) - pressure_at s i (before j)) * 0.5)"
proof -
  note wf = well_formedD [OF assms(1)]
  have w: "width (write (textures_velocity s)) = SIM_RESOLUTION"
       "height (write (textures_velocity s)) = SIM_RESOLUTION"
    using wf(3) by (simp_all add: fbo_ok_def)
  have p: "clamped SIM_RESOLUTION (gl_tex s (texture (read (textures_pressure s))))"
    using wf(4) by (simp add: fbo_ok_def)
  have v: "clamped SIM_RESOLUTION (gl_tex s (texture (read (textures_velocity s))))"
    using wf(2) by (simp add: fbo_ok_def)
  obtain a b c d where t: "texel (gl_tex s (texture (read (textures_velocity s)))) i j = (a, b, c, d)"
    by (cases "texel (gl_tex s (texture (read (textures_velocity s)))) i j") auto
  show ?thesis
    using assms(2,3) w t
    by (simp add: velocity_at_def pressure_at_def gradientSubtraction_def gl_defs
        write_pixels_def gradientSubtractShader_def simTexelSize_def
        sample_left [OF p] sample_right [OF p] sample_bottom [OF p] sample_top [OF p]
        sample_centre [OF v])
qed

text \<open>
  C4. Gradient subtraction draws into the velocity write buffer and swaps, so that the
  new velocity of every cell is the velocity the cell had minus one half of (right
  pressure - left pressure, top pressure - bottom pressure), the pressures being those of
  the pressure read buffer at the neighbours clamped at the edge; in \<^verbatim>\<open>step\<close> it
  runs on the state that the pressure solve leaves.
\<close>

theorem gradientSubtraction_projects:
  assumes "well_formed s" and "i < SIM_RESOLUTION" and "j < SIM_RESOLUTION"
  shows "velocity_at (gradientSubtraction s) i j =
     (fst (velocity_at s i j)
        - 0.5 * (pressure_at s (after SIM_RESOLUTION i) j - pressure_at s (before i) j),
      snd (velocity_at s i j)
        - 0.5 * (pressure_at s i (after SIM_RESOLUTION j) - pressure_at s i (before j)))
    \<and> textures_velocity (gradientSubtraction s) = swap (textures_velocity s)
    \<and> step dt now s =
        computeCurl (gradientSubtraction (pressureSolve (clearPressure (computeDivergence
          (afterAdvection dt now s)))))"
  using gradientSubtraction_cell [OF assms]
  by (simp add: gradientSubtraction_state step_def afterAdvection_def Let_def)

theorem gradientSubtraction_projects_witness:
  "well_formed ((init_state 800)\<lparr>gl_tex := (gl_tex (init_state 800))
       (3 := (gl_tex (init_state 800) 3)\<lparr>texel := (\<lambda>i j. (2 * real i, 0, 0, 1))\<rparr>)\<rparr>)
   \<and> velocity_at (gradientSubtraction ((init_state 800)\<lparr>gl_tex := (gl_tex (init_state 800))
       (3 := (gl_tex (init_state 800) 3)\<lparr>texel := (\<lambda>i j. (2 * real i, 0, 0, 1))\<rparr>)\<rparr>)) 3 5
       = (- 2, 0)
   \<and> velocity_at (gradientSubtraction ((init_state 800)\<lparr>gl_tex := (gl_tex (init_state 800))
       (3 := (gl_tex (init_state 800) 3)\<lparr>texel := (\<lambda>i j. (2 * real i, 0, 0, 1))\<rparr>)\<rparr>)) 0 5
       = (- 1, 0)"
proof -
  define s where "s = (init_state 800)\<lparr>gl_tex := (gl_tex (init_state 800))
       (3 := (gl_tex (init_state 800) 3)\<lparr>texel := (\<lambda>i j. (2 * real i, 0, 0, 1))\<rparr>)\<rparr>"
  have wf: "well_formed s"
    using well_formed_init_state [of 800] by (simp only: s_def well_formed_texel_update)
  have v: "velocity_at s i j = (0, 0)" for i j
    by (simp add: velocity_at_def s_def init_state_simps init_state_texel)
  have p: "pressure_at s i j = 2 * real i" for i j
    by (simp add: pressure_at_def s_def init_state_simps)
  have r: "(3::nat) < SIM_RESOLUTION" "(5::nat) < SIM_RESOLUTION" "(0::nat) < SIM_RESOLUTION"
    by (simp_all add: SIM_RESOLUTION_def)
  have b: "before 3 = 2" "after SIM_RESOLUTION 3 = 4" "before 0 = 0" "after SIM_RESOLUTION 0 = 1"
    by (simp_all add: before_def after_def SIM_RESOLUTION_def)
  have 1: "velocity_at (gradientSubtraction s) 3 5 = (- 2, 0)"
    using conjunct1 [OF gradientSubtraction_projects [OF wf r(1,2)]] by (simp add: v p b)
  have 2: "velocity_at (gradientSubtraction s) 0 5 = (- 1, 0)"
    using conjunct1 [OF gradientSubtraction_projects [OF wf r(3,2)]] by (simp add: v p b)
  show ?thesis using wf 1 2 unfolding s_def by (intro conjI)
qed

section \<open>Parsing the iteration count\<close>

lemma parseInt_examples:
  "parseInt ''0'' = Some 0"
  "parseInt ''-5'' = Some (- 5)"
  "parseInt ''abc'' = None"
  by (simp_all add: parseInt_def isWhiteSpace_def digitValue_def Let_def)

lemma well_formed_updateIterations:
  "well_formed (updateIterations val s) = well_formed s"
  by (simp add: updateIterations_def well_formed_def fields_def fbo_ok_def)

lemma well_formed_pointer:
  "well_formed (s\<lparr>isMouseDown := b, mousePos := p, lastMousePos := q\<rparr>) = well_formed s"
  by (simp add: well_formed_def fields_def fbo_ok_def)

section \<open>The step as a whole\<close>

lemma processMouseInput_state:
  "textures_velocity (processMouseInput now s) =
     (if isMouseDown s then swap (textures_velocity s) else textures_velocity s)"
  "textures_dye (processMouseInput now s) =
     (if isMouseDown s then swap (textures_dye s) else textures_dye s)"
  "textures_pressure (processMouseInput now s) = textures_pressure s"
  "textures_divergence (processMouseInput now s) = textures_divergence s"
  "textures_curl (processMouseInput now s) = textures_curl s"
  "simParams_pressureIterations (processMouseInput now s) = simParams_pressureIterations s"
  "well_formed (processMouseInput now s) = well_formed s"
  "gl_draws (processMouseInput now s) = gl_draws s @
     (if isMouseDown s
      then [\<lparr>draw_program = Splat, draw_inputs = [texture (read (textures_velocity s))],
             draw_target = Some (texture (write (textures_velocity s)))\<rparr>,
            \<lparr>draw_program = Splat, draw_inputs = [texture (read (textures_dye s))],
             draw_target = Some (texture (write (textures_dye s)))\<rparr>]
      else [])"
  by (simp_all add: processMouseInput_def Let_def splat_state well_formed_stage)

lemma afterAdvection_state:
  "textures_velocity (afterAdvection dt now s) = swap (textures_velocity (processMouseInput now s))"
  "textures_dye (afterAdvection dt now s) = swap (textures_dye (processMouseInput now s))"
  "textures_pressure (afterAdvection dt now s) = textures_pressure s"
  "textures_divergence (afterAdvection dt now s) = textures_divergence s"
  "textures_curl (afterAdvection dt now s) = textures_curl s"
  "simParams_pressureIterations (afterAdvection dt now s) = simParams_pressureIterations s"
  "well_formed (afterAdvection dt now s) = well_formed s"
  "gl_draws (afterAdvection dt now s) = gl_draws (processMouseInput now s) @
     [\<lparr>draw_program = Advection,
       draw_inputs = [texture (read (textures_velocity (processMouseInput now s))),
                      texture (read (textures_velocity (processMouseInput now s)))],
       draw_target = Some (texture (write (textures_velocity (processMouseInput now s))))\<rparr>,
      \<lparr>draw_program = Advection,
       draw_inputs = [texture (read (textures_velocity (processMouseInput now s))),
                      texture (read (textures_dye (processMouseInput now s)))],
       draw_target = Some (texture (write (textures_dye (processMouseInput now s))))\<rparr>]"
  by (simp_all add: afterAdvection_def advectDye_state advectVelocity_state
      processMouseInput_state(3-7) well_formed_stage)

lemma beforePressureLoop_state:
  "textures_velocity (beforePressureLoop dt now s) = textures_velocity (afterAdvection dt now s)"
  "textures_dye (beforePressureLoop dt now s) = textures_dye (afterAdvection dt now s)"
  "textures_pressure (beforePressureLoop dt now s) = textures_pressure s"
  "textures_divergence (beforePressureLoop dt now s) = textures_divergence s"
  "textures_curl (beforePressureLoop dt now s) = textures_curl s"
  "simParams_pressureIterations (beforePressureLoop dt now s) = simParams_pressureIterations s"
  "well_formed (beforePressureLoop dt now s) = well_formed s"
  "gl_unit (beforePressureLoop dt now s) TEXTURE1 = texture (textures_divergence s)"
  "gl_draws (beforePressureLoop dt now s) = gl_draws (afterAdvection dt now s) @
     [\<lparr>draw_program = Divergence,
       draw_inputs = [texture (read (textures_velocity (afterAdvection dt now s)))],
       draw_target = Some (texture (textures_divergence s))\<rparr>,
      \<lparr>draw_program = Clear, draw_inputs = [],
       draw_target = Some (texture (read (textures_pressure s)))\<rparr>]"
  by (simp_all add: beforePressureLoop_def bindDivergence_state clearPressure_state
      computeDivergence_state afterAdvection_state(3-7) well_formed_stage)

lemma step_split:
  "step dt now s =
     computeCurl (gradientSubtraction (pressureLoop 0 (beforePressureLoop dt now s)))"
  by (simp add: step_def Let_def pressureSolve_def beforePressureLoop_def afterAdvection_def)

lemma pressureLoop_count: "pressureLoop 0 s = (pressureIteration ^^ iterationCount s) s"
  by (simp add: pressureLoop_funpow iterationCount_def split: option.splits)

lemma clearPressure_cell:
  assumes "well_formed s" and "i < SIM_RESOLUTION" and "j < SIM_RESOLUTION"
  shows "pressure_at (clearPressure s) i j = 0"
  using assms well_formedD(4) [OF assms(1)]
  by (simp add: pressure_at_def clearPressure_def gl_defs write_pixels_def clearShader_def
      fbo_ok_def)




lemma step_draws:
  "gl_draws (step dt now s) = gl_draws (beforePressureLoop dt now s) @
     map (\<lambda>k. \<lparr>draw_program = Pressure,
                 draw_inputs = [texture ((if even k then read else write) (textures_pressure s)),
                                texture (textures_divergence s)],
                 draw_target = Some (texture ((if even k then write else read)
                                                (textures_pressure s)))\<rparr>)
       [0..<iterationCount s] @
     [\<lparr>draw_program = GradientSubtract,
       draw_inputs = [texture ((if even (iterationCount s) then read else write)
                                 (textures_pressure s)),
                      texture (read (textures_velocity (afterAdvection dt now s)))],
       draw_target = Some (texture (write (textures_velocity (afterAdvection dt now s))))\<rparr>,
      \<lparr>draw_program = Curl,
       draw_inputs = [texture (write (textures_velocity (afterAdvection dt now s)))],
       draw_target = Some (texture (textures_curl s))\<rparr>]"
proof -
  have n: "iterationCount (beforePressureLoop dt now s) = iterationCount s"
    by (simp add: iterationCount_def beforePressureLoop_state)
  show ?thesis
    by (simp add: step_split pressureLoop_count n computeCurl_state gradientSubtraction_state
        iterate_state iterate_draws beforePressureLoop_state(1-8) swap_sel)
qed

text \<open>
  C5. With the iteration count 0 the loop of the pressure solve returns the state it is
  given, and no draw of the step uses the pressure program; at the end of the step the
  pressure read buffer is zero at every cell, and the velocity of every cell is the
  velocity the cell had when the advections were done, whatever its divergence is.
\<close>

theorem step_without_iterations:
  assumes "well_formed s" and "simParams_pressureIterations s = Some 0"
    and "i < SIM_RESOLUTION" and "j < SIM_RESOLUTION"
  shows "pressureLoop 0 (beforePressureLoop dt now s) = beforePressureLoop dt now s
    \<and> (\<forall>d \<in> set (drop (length (gl_draws s)) (gl_draws (step dt now s))).
          draw_program d \<noteq> Pressure)
    \<and> pressure_at (step dt now s) i j = 0
    \<and> velocity_at (step dt now s) i j = velocity_at (afterAdvection dt now s) i j"
proof -
  define s3 where "s3 = afterAdvection dt now s"
  define s4 where "s4 = computeDivergence s3"
  define s5 where "s5 = clearPressure s4"
  define s6 where "s6 = bindDivergence s5"
  define s7 where "s7 = gradientSubtraction s6"
  have b: "beforePressureLoop dt now s = s6"
    by (simp add: beforePressureLoop_def s6_def s5_def s4_def s3_def)
  have n: "iterationCount s = 0" "iterationCount s6 = 0"
    using assms(2) by (simp_all add: iterationCount_def b [symmetric] beforePressureLoop_state)
  have loop: "pressureLoop 0 s6 = s6"
    by (simp add: pressureLoop_count n)
  have st: "step dt now s = computeCurl s7"
    by (simp add: step_split b loop s7_def)
  have wf3: "well_formed s3" using assms(1) by (simp add: s3_def afterAdvection_state)
  have wf4: "well_formed s4" using wf3 by (simp add: s4_def well_formed_stage)
  have wf5: "well_formed s5" using wf4 by (simp add: s5_def well_formed_stage)
  have wf6: "well_formed s6" using wf5 by (simp add: s6_def well_formed_stage)
  have wf7: "well_formed s7" using wf6 by (simp add: s7_def well_formed_stage)
  have p6: "pressure_at s6 a c = 0" if "a < SIM_RESOLUTION" "c < SIM_RESOLUTION" for a c
    using clearPressure_cell [OF wf4 that]
    by (simp add: s6_def s5_def pressure_at_def bindDivergence_state)
  have r: "before a < SIM_RESOLUTION" "after SIM_RESOLUTION a < SIM_RESOLUTION"
    if "a < SIM_RESOLUTION" for a
    using that by (auto simp: before_def after_def)
  have v43: "velocity_at s4 = velocity_at s3"
    using well_formed_distinct(5) [OF wf3]
    by (simp add: s4_def velocity_at_def computeDivergence_state gl_tex_frame fun_eq_iff)
  have v54: "velocity_at s5 = velocity_at s4"
    using well_formed_distinct(7) [OF wf4]
    by (simp add: s5_def velocity_at_def clearPressure_state gl_tex_frame fun_eq_iff)
  have v65: "velocity_at s6 = velocity_at s5"
    by (simp add: s6_def velocity_at_def bindDivergence_state fun_eq_iff)
  have v76: "velocity_at s7 i j = velocity_at s6 i j"
    using gradientSubtraction_cell [OF wf6 assms(3,4)] p6 r assms(3,4)
    by (simp add: s7_def)
  have vc: "velocity_at (computeCurl s7) = velocity_at s7"
    using well_formed_distinct(6) [OF wf7]
    by (simp add: velocity_at_def computeCurl_state gl_tex_frame fun_eq_iff)
  have p76: "pressure_at s7 = pressure_at s6"
    using well_formed_distinct(9) [OF wf6]
    by (simp add: s7_def pressure_at_def gradientSubtraction_state gl_tex_frame fun_eq_iff)
  have pc: "pressure_at (computeCurl s7) = pressure_at s7"
    using well_formed_distinct(13) [OF wf7]
    by (simp add: pressure_at_def computeCurl_state gl_tex_frame fun_eq_iff)
  have draws: "\<forall>d \<in> set (drop (length (gl_draws s)) (gl_draws (step dt now s))).
          draw_program d \<noteq> Pressure"
    by (auto simp: step_draws n beforePressureLoop_state afterAdvection_state
        processMouseInput_state)
  have "pressure_at (step dt now s) i j = 0"
    using p6 [OF assms(3,4)] by (simp add: st pc p76)
  moreover have "velocity_at (step dt now s) i j = velocity_at (afterAdvection dt now s) i j"
    by (simp add: st vc v76 v65 v54 v43 s3_def)
  ultimately show ?thesis using loop draws by (simp add: b)
qed

theorem step_without_iterations_witness:
  "well_formed (updateIterations ''0'' (init_state 800)
      \<lparr>isMouseDown := True, mousePos := (1 / 2, 1 / 2), lastMousePos := (1 / 4, 1 / 2)\<rparr>)
   \<and> simParams_pressureIterations (updateIterations ''0'' (init_state 800)
      \<lparr>isMouseDown := True, mousePos := (1 / 2, 1 / 2), lastMousePos := (1 / 4, 1 / 2)\<rparr>) = Some 0
   \<and> pressure_at (step 0.016 0 (updateIterations ''0'' (init_state 800)
      \<lparr>isMouseDown := True, mousePos := (1 / 2, 1 / 2), lastMousePos := (1 / 4, 1 / 2)\<rparr>)) 7 9 = 0
   \<and> velocity_at (step 0.016 0 (updateIterations ''0'' (init_state 800)
      \<lparr>isMouseDown := True, mousePos := (1 / 2, 1 / 2), lastMousePos := (1 / 4, 1 / 2)\<rparr>)) 7 9
       = velocity_at (afterAdvection 0.016 0 (updateIterations ''0'' (init_state 800)
      \<lparr>isMouseDown := True, mousePos := (1 / 2, 1 / 2), lastMousePos := (1 / 4, 1 / 2)\<rparr>)) 7 9"
proof -
  define s where "s = updateIterations ''0'' (init_state 800)
      \<lparr>isMouseDown := True, mousePos := (1 / 2, 1 / 2), lastMousePos := (1 / 4, 1 / 2)\<rparr>"
  have wf: "well_formed s"
    by (simp add: s_def well_formed_pointer well_formed_updateIterations well_formed_init_state)
  have n: "simParams_pressureIterations s = Some 0"
    by (simp add: s_def updateIterations_def parseInt_examples)
  have r: "(7::nat) < SIM_RESOLUTION" "(9::nat) < SIM_RESOLUTION"
    by (simp_all add: SIM_RESOLUTION_def)
  note t = step_without_iterations [OF wf n r, of "0.016" 0]
  have 1: "pressure_at (step 0.016 0 s) 7 9 = 0"
    using t by (elim conjE)
  have 2: "velocity_at (step 0.016 0 s) 7 9 = velocity_at (afterAdvection 0.016 0 s) 7 9"
    using t by (elim conjE)
  show ?thesis using wf n 1 2 unfolding s_def by (intro conjI)
qed



section \<open>Pause, display and resume\<close>


lemma well_formed_display: "well_formed (display s) = well_formed s"
  by (simp add: display_def Let_def well_formed_gl)

lemma togglePause_state:
  "isPaused (togglePause s) = (\<not> isPaused s)"
  "gl_tex (togglePause s) = gl_tex s"
  "gl_draws (togglePause s) = gl_draws s"
  "textures_velocity (togglePause s) = textures_velocity s"
  "textures_pressure (togglePause s) = textures_pressure s"
  "textures_divergence (togglePause s) = textures_divergence s"
  "textures_curl (togglePause s) = textures_curl s"
  "textures_dye (togglePause s) = textures_dye s"
  "isMouseDown (togglePause s) = isMouseDown s"
  "simParams_pressureIterations (togglePause s) = simParams_pressureIterations s"
  by (simp_all add: togglePause_def Let_def)

lemma well_formed_togglePause: "well_formed (togglePause s) = well_formed s"
  by (simp add: well_formed_def fields_def fbo_ok_def togglePause_state)



section \<open>Clearing the fluid\<close>

lemma clearFluid_state:
  "textures_velocity (clearFluid s) = textures_velocity s"
  "textures_pressure (clearFluid s) = textures_pressure s"
  "textures_divergence (clearFluid s) = textures_divergence s"
  "textures_curl (clearFluid s) = textures_curl s"
  "textures_dye (clearFluid s) = textures_dye s"
  "well_formed (clearFluid s) = well_formed s"
  "gl_draws (clearFluid s) = gl_draws s @
     map (\<lambda>t. \<lparr>draw_program = Clear, draw_inputs = [], draw_target = Some t\<rparr>)
       [texture (read (textures_velocity s)), texture (write (textures_velocity s)),
        texture (read (textures_pressure s)), texture (write (textures_pressure s)),
        texture (read (textures_dye s)), texture (write (textures_dye s))]"
  by (simp_all add: clearFluid_def Let_def blit_fields well_formed_blit)
     (simp add: blit_def)

lemma clearFluid_gl_tex:
  assumes "t \<noteq> texture (read (textures_velocity s))" "t \<noteq> texture (write (textures_velocity s))"
    "t \<noteq> texture (read (textures_pressure s))" "t \<noteq> texture (write (textures_pressure s))"
    "t \<noteq> texture (read (textures_dye s))" "t \<noteq> texture (write (textures_dye s))"
  shows "gl_tex (clearFluid s) t = gl_tex s t"
  using assms by (simp add: clearFluid_def gl_defs)

lemma clearFluid_keeps_derived:
  assumes "well_formed s"
  shows "curl_at (clearFluid s) = curl_at s" and "divergence_at (clearFluid s) = divergence_at s"
proof -
  have d: "distinct (map texture (fields s))" using assms by (rule well_formedD(1))
  have "gl_tex (clearFluid s) (texture (textures_curl s)) = gl_tex s (texture (textures_curl s))"
    using d by (intro clearFluid_gl_tex) (auto simp: fields_def)
  then show "curl_at (clearFluid s) = curl_at s"
    by (simp add: curl_at_def clearFluid_state fun_eq_iff)
  have "gl_tex (clearFluid s) (texture (textures_divergence s))
      = gl_tex s (texture (textures_divergence s))"
    using d by (intro clearFluid_gl_tex) (auto simp: fields_def)
  then show "divergence_at (clearFluid s) = divergence_at s"
    by (simp add: divergence_at_def clearFluid_state fun_eq_iff)
qed

lemma clearFluid_clears:
  assumes "well_formed s"
  shows "i < SIM_RESOLUTION \<Longrightarrow> j < SIM_RESOLUTION \<Longrightarrow> velocity_at (clearFluid s) i j = (0, 0)"
    and "i < SIM_RESOLUTION \<Longrightarrow> j < SIM_RESOLUTION \<Longrightarrow> pressure_at (clearFluid s) i j = 0"
    and "i < DYE_RESOLUTION \<Longrightarrow> j < DYE_RESOLUTION \<Longrightarrow> dye_at (clearFluid s) i j = (0, 0, 0)"
proof -
  have d: "distinct (map texture (fields s))" using assms by (rule well_formedD(1))
  note wf = well_formedD(2-9) [OF assms]
  show "i < SIM_RESOLUTION \<Longrightarrow> j < SIM_RESOLUTION \<Longrightarrow> velocity_at (clearFluid s) i j = (0, 0)"
    using d wf(1)
    by (simp add: velocity_at_def clearFluid_def gl_defs fields_def fbo_ok_def
        write_pixels_def clearShader_def)
  show "i < SIM_RESOLUTION \<Longrightarrow> j < SIM_RESOLUTION \<Longrightarrow> pressure_at (clearFluid s) i j = 0"
    using d wf(3)
    by (simp add: pressure_at_def clearFluid_def gl_defs fields_def fbo_ok_def
        write_pixels_def clearShader_def)
  show "i < DYE_RESOLUTION \<Longrightarrow> j < DYE_RESOLUTION \<Longrightarrow> dye_at (clearFluid s) i j = (0, 0, 0)"
    using d wf(7)
    by (simp add: dye_at_def clearFluid_def gl_defs fields_def fbo_ok_def
        write_pixels_def clearShader_def)
qed

text \<open>
  C7. The code falls short of the claim for the curl field: \<^verbatim>\<open>clearFluid\<close>, whose
  comment says that it clears all textures, draws into the two velocity, the two
  pressure and the two dye textures and leaves the curl texture (and the divergence
  texture) as it is. Here the
  state after \<^verbatim>\<open>createTextures\<close> holds a curl of one half in the cell (10, 10), as
  the curl shader writes it; after \<^verbatim>\<open>clearFluid\<close> the velocity, the pressure and the dye
  of that cell are zero and its curl is still one half.
\<close>

theorem clearFluid_leaves_curl:
  "well_formed ((init_state 800)\<lparr>gl_tex := (gl_tex (init_state 800))
       (6 := (gl_tex (init_state 800) 6)\<lparr>texel :=
          (\<lambda>i j. if i = 10 \<and> j = 10 then (1 / 2, 0, 0, 1) else (0, 0, 0, 1))\<rparr>)\<rparr>)
   \<and> velocity_at (clearFluid ((init_state 800)\<lparr>gl_tex := (gl_tex (init_state 800))
       (6 := (gl_tex (init_state 800) 6)\<lparr>texel :=
          (\<lambda>i j. if i = 10 \<and> j = 10 then (1 / 2, 0, 0, 1) else (0, 0, 0, 1))\<rparr>)\<rparr>)) 10 10 = (0, 0)
   \<and> pressure_at (clearFluid ((init_state 800)\<lparr>gl_tex := (gl_tex (init_state 800))
       (6 := (gl_tex (init_state 800) 6)\<lparr>texel :=
          (\<lambda>i j. if i = 10 \<and> j = 10 then (1 / 2, 0, 0, 1) else (0, 0, 0, 1))\<rparr>)\<rparr>)) 10 10 = 0
   \<and> dye_at (clearFluid ((init_state 800)\<lparr>gl_tex := (gl_tex (init_state 800))
       (6 := (gl_tex (init_state 800) 6)\<lparr>texel :=
          (\<lambda>i j. if i = 10 \<and> j = 10 then (1 / 2, 0, 0, 1) else (0, 0, 0, 1))\<rparr>)\<rparr>)) 10 10 = (0, 0, 0)
   \<and> curl_at (clearFluid ((init_state 800)\<lparr>gl_tex := (gl_tex (init_state 800))
       (6 := (gl_tex (init_state 800) 6)\<lparr>texel :=
          (\<lambda>i j. if i = 10 \<and> j = 10 then (1 / 2, 0, 0, 1) else (0, 0, 0, 1))\<rparr>)\<rparr>)) 10 10 = 1 / 2"
proof -
  define s where "s = (init_state 800)\<lparr>gl_tex := (gl_tex (init_state 800))
       (6 := (gl_tex (init_state 800) 6)\<lparr>texel :=
          (\<lambda>i j. if i = 10 \<and> j = 10 then (1 / 2, 0, 0, 1) else (0, 0, 0, 1))\<rparr>)\<rparr>"
  have wf0: "well_formed (init_state 800)" by (rule well_formed_init_state)
  have wf: "well_formed s"
    using wf0 by (simp only: s_def well_formed_texel_update)
  have c: "curl_at s 10 10 = 1 / 2"
    by (simp add: s_def curl_at_def init_state_simps)
  have r: "(10::nat) < SIM_RESOLUTION" "(10::nat) < DYE_RESOLUTION"
    by (simp_all add: SIM_RESOLUTION_def DYE_RESOLUTION_def)
  have "velocity_at (clearFluid s) 10 10 = (0, 0)"
    using r by (intro clearFluid_clears(1) [OF wf])
  moreover have "pressure_at (clearFluid s) 10 10 = 0"
    using r by (intro clearFluid_clears(2) [OF wf])
  moreover have "dye_at (clearFluid s) 10 10 = (0, 0, 0)"
    using r by (intro clearFluid_clears(3) [OF wf])
  moreover have "curl_at (clearFluid s) 10 10 = 1 / 2"
    using c by (simp add: clearFluid_keeps_derived [OF wf])
  ultimately show ?thesis using wf unfolding s_def by (intro conjI)
qed

section \<open>Updating the parameters\<close>





section \<open>Every reachable state is well-formed\<close>

lemma well_formed_step: "well_formed (step dt now s) = well_formed s"
  by (simp add: step_split pressureLoop_count well_formed_stage iterate_state
      beforePressureLoop_state)

lemma well_formed_render: "well_formed (render now s) = well_formed s"
  by (simp add: render_def well_formed_display well_formed_step)

lemma well_formed_controls:
  "well_formed (updateViscosity parseFloat val s) = well_formed s"
  "well_formed (updateDiffusion parseFloat val s) = well_formed s"
  "well_formed (updateDisplayMode m s) = well_formed s"
  "well_formed (s\<lparr>canvas_width := w\<rparr>) = well_formed s"
  by (simp_all add: updateViscosity_def updateDiffusion_def updateDisplayMode_def
      well_formed_def fields_def fbo_ok_def)

lemma reachable_well_formed: "reachable s \<Longrightarrow> well_formed s"
  by (induction rule: reachable.induct)
     (simp_all add: well_formed_init_state well_formed_render well_formed_pointer
        well_formed_controls well_formed_updateIterations clearFluid_state
        well_formed_togglePause)

end
